theory Spec2Isabelle
  imports Main "HOL-Library.Sublist" "HOL-Library.AList" "HOL-Library.Word"
begin

section \<open>Kubernetes objects read and built by the volume translator\<close>

text \<open>
  A Go string is a byte sequence, as \<^typ>\<open>string\<close> is. A Go map with string keys is an
  association list with \<open>map_of\<close> as lookup; a nil map or a nil pointer is \<open>None\<close>.
  A \<open>resource.Quantity\<close> is kept as its integer amount, the zero value being \<open>0\<close>.
\<close>

type_synonym strmap = "(string \<times> string) list"
type_synonym quantity = int

record NodeSelectorRequirement =
  nsr_key :: string
  nsr_operator :: string
  nsr_values :: "string list"

record NodeSelectorTerm =
  matchExpressions :: "NodeSelectorRequirement list"
  matchFields :: "NodeSelectorRequirement list"

record NodeSelector =
  nodeSelectorTerms :: "NodeSelectorTerm list"

record VolumeNodeAffinity =
  required :: "NodeSelector option"

record CSIPersistentVolumeSource =
  csi_driver :: string
  csi_volumeHandle :: string
  csi_fsType :: string
  csi_readOnly :: bool
  csi_volumeAttributes :: "strmap option"

record AWSElasticBlockStoreVolumeSource =
  ebs_volumeID :: string
  ebs_fsType :: string
  ebs_partition :: int
  ebs_readOnly :: bool

record ObjectReference =
  ref_apiVersion :: string
  ref_kind :: string
  ref_namespace :: string
  ref_name :: string

record PersistentVolume =
  pv_name :: string
  pv_uid :: string
  pv_labels :: "strmap option"
  pv_annotations :: "strmap option"
  pv_capacity :: "(string \<times> quantity) list option"
  pv_accessModes :: "string list"
  pv_reclaimPolicy :: string
  pv_storageClassName :: string
  pv_claimRef :: "ObjectReference option"
  pv_csi :: "CSIPersistentVolumeSource option"
  pv_awsElasticBlockStore :: "AWSElasticBlockStoreVolumeSource option"
  pv_volumeMode :: "string option"
  pv_nodeAffinity :: "VolumeNodeAffinity option"

record PersistentVolumeClaim =
  pvc_name :: string
  pvc_namespace :: string
  pvc_uid :: string
  pvc_labels :: "strmap option"
  pvc_annotations :: "strmap option"
  pvc_accessModes :: "string list"
  pvc_requests :: "(string \<times> quantity) list option"
  pvc_volumeName :: string
  pvc_storageClassName :: "string option"
  pvc_volumeMode :: "string option"

definition ResourceStorage :: string where
  "ResourceStorage = ''storage''"

definition PersistentVolumeReclaimRetain :: string where
  "PersistentVolumeReclaimRetain = ''Retain''"

definition NodeSelectorOpIn :: string where
  "NodeSelectorOpIn = ''In''"

text \<open>Indexing a Go map of quantities: the zero value when the map is nil or the key is absent.\<close>

definition quantity_at :: "(string \<times> quantity) list option \<Rightarrow> string \<Rightarrow> quantity" where
  "quantity_at m k = (case m of None \<Rightarrow> 0 | Some kvs \<Rightarrow> (case map_of kvs k of None \<Rightarrow> 0 | Some q \<Rightarrow> q))"

section \<open>Volume translator (internal/migration/pv\_translator.go)\<close>

record PVTranslationConfig =
  cfg_destNamespace :: string
  cfg_destPVCName :: string
  cfg_storageClassMapping :: "strmap option"
  cfg_preserveNodeAffinity :: bool

record TranslationResult =
  res_pv :: PersistentVolume
  res_pvc :: PersistentVolumeClaim
  res_volumeID :: string
  res_availabilityZone :: string

text \<open>
  The errors of the translator. Each carries what the source's message is formatted from;
  \<open>ExtractFailed\<close> is the wrapping \<open>failed to extract EBS volume ID: %w\<close>.
\<close>

datatype translate_error =
    NilPV
  | NilPVC
  | UnsupportedDriver string
  | NotABlockVolume string
  | ExtractFailed translate_error

subsection \<open>strings.Contains and strings.Split on the separator \<open>/\<close>\<close>

definition strings_Contains :: "string \<Rightarrow> char \<Rightarrow> bool" where
  "strings_Contains s c = (c \<in> set s)"

text \<open>
  \<open>strings.Split(s, sep)\<close> for a one-byte separator: the substrings between the
  separators, one more than there are separators.
\<close>

fun strings_Split :: "string \<Rightarrow> char \<Rightarrow> string list" where
  "strings_Split [] c = [[]]"
| "strings_Split (x # xs) c =
     (if x = c then [] # strings_Split xs c
      else (case strings_Split xs c of
              [] \<Rightarrow> [[x]]
            | p # ps \<Rightarrow> (x # p) # ps))"

subsection \<open>extractEBSVolumeID\<close>

definition extractEBSVolumeID :: "PersistentVolume \<Rightarrow> translate_error + string" where
  "extractEBSVolumeID pv =
     (case pv_csi pv of
        Some c \<Rightarrow>
          if csi_driver c = ''ebs.csi.aws.com'' then Inr (csi_volumeHandle c)
          else Inl (UnsupportedDriver (csi_driver c))
      | None \<Rightarrow>
          (case pv_awsElasticBlockStore pv of
             Some e \<Rightarrow>
               (let volumeID = ebs_volumeID e in
                if strings_Contains volumeID (CHR ''/'')
                then (let parts = strings_Split volumeID (CHR ''/'')
                      in Inr (parts ! (length parts - 1)))
                else Inr volumeID)
           | None \<Rightarrow> Inl (NotABlockVolume (pv_name pv))))"

subsection \<open>GetVolumeIDFromHandle (internal/aws)\<close>

text \<open>
  The loop \<open>for i := len(handle) - 1; i >= 0; i--\<close>; the argument \<open>k\<close> of the
  recursion is \<open>i + 1\<close>, so that \<open>k = 0\<close> is the loop's exit.
\<close>

fun GetVolumeIDFromHandle_loop :: "string \<Rightarrow> nat \<Rightarrow> string" where
  "GetVolumeIDFromHandle_loop handle 0 = handle"
| "GetVolumeIDFromHandle_loop handle (Suc i) =
     (if handle ! i = CHR ''/'' then drop (i + 1) handle
      else GetVolumeIDFromHandle_loop handle i)"

definition GetVolumeIDFromHandle :: "string \<Rightarrow> string" where
  "GetVolumeIDFromHandle handle =
     (if length handle > 0 then GetVolumeIDFromHandle_loop handle (length handle)
      else handle)"

subsection \<open>extractAvailabilityZone\<close>

text \<open>
  The two nested \<open>range\<close> loops with their early \<open>return\<close>: the first
  expression, in order, whose key is one of the two zone labels and which has a value.
  \<open>None\<close> is the loop running to its end.
\<close>

fun extractAvailabilityZone_exprs :: "NodeSelectorRequirement list \<Rightarrow> string option" where
  "extractAvailabilityZone_exprs [] = None"
| "extractAvailabilityZone_exprs (expr # exprs) =
     (if nsr_key expr = ''topology.kubernetes.io/zone'' \<and> length (nsr_values expr) > 0
      then Some (nsr_values expr ! 0)
      else if nsr_key expr = ''failure-domain.beta.kubernetes.io/zone'' \<and> length (nsr_values expr) > 0
      then Some (nsr_values expr ! 0)
      else extractAvailabilityZone_exprs exprs)"

fun extractAvailabilityZone_terms :: "NodeSelectorTerm list \<Rightarrow> string option" where
  "extractAvailabilityZone_terms [] = None"
| "extractAvailabilityZone_terms (t # ts) =
     (case extractAvailabilityZone_exprs (matchExpressions t) of
        Some z \<Rightarrow> Some z
      | None \<Rightarrow> extractAvailabilityZone_terms ts)"

definition extractAvailabilityZone :: "PersistentVolume \<Rightarrow> string" where
  "extractAvailabilityZone pv =
     (case pv_nodeAffinity pv of
        None \<Rightarrow> []
      | Some na \<Rightarrow>
          (case required na of
             None \<Rightarrow> []
           | Some sel \<Rightarrow>
               (case extractAvailabilityZone_terms (nodeSelectorTerms sel) of
                  Some z \<Rightarrow> z
                | None \<Rightarrow> [])))"

subsection \<open>buildNodeAffinityForZone, buildPVSource, getDestStorageClass, copyStringMap\<close>

definition buildNodeAffinityForZone :: "string \<Rightarrow> VolumeNodeAffinity" where
  "buildNodeAffinityForZone zone =
     \<lparr>required = Some \<lparr>nodeSelectorTerms =
        [\<lparr>matchExpressions =
            [\<lparr>nsr_key = ''topology.kubernetes.io/zone'',
              nsr_operator = NodeSelectorOpIn,
              nsr_values = [zone]\<rparr>],
          matchFields = []\<rparr>]\<rparr>\<rparr>"

text \<open>The loop \<open>for k, v := range m { result[k] = v }\<close> into a fresh map.\<close>

fun copyStringMap_loop :: "strmap \<Rightarrow> strmap \<Rightarrow> strmap" where
  "copyStringMap_loop [] result = result"
| "copyStringMap_loop ((k, v) # m) result = copyStringMap_loop m (AList.update k v result)"

definition copyStringMap :: "strmap option \<Rightarrow> strmap option" where
  "copyStringMap m = (case m of None \<Rightarrow> None | Some kvs \<Rightarrow> Some (copyStringMap_loop kvs []))"

record PersistentVolumeSource =
  src_csi :: "CSIPersistentVolumeSource option"
  src_awsElasticBlockStore :: "AWSElasticBlockStoreVolumeSource option"

definition buildPVSource :: "PersistentVolume \<Rightarrow> string \<Rightarrow> PersistentVolumeSource" where
  "buildPVSource sourcePV volumeID =
     (case pv_csi sourcePV of
        Some c \<Rightarrow>
          \<lparr>src_csi = Some \<lparr>csi_driver = csi_driver c,
                            csi_volumeHandle = volumeID,
                            csi_fsType = csi_fsType c,
                            csi_readOnly = csi_readOnly c,
                            csi_volumeAttributes = copyStringMap (csi_volumeAttributes c)\<rparr>,
           src_awsElasticBlockStore = None\<rparr>
      | None \<Rightarrow>
          (case pv_awsElasticBlockStore sourcePV of
             Some e \<Rightarrow>
               \<lparr>src_csi = None,
                src_awsElasticBlockStore =
                  Some \<lparr>ebs_volumeID = volumeID,
                        ebs_fsType = ebs_fsType e,
                        ebs_partition = ebs_partition e,
                        ebs_readOnly = ebs_readOnly e\<rparr>\<rparr>
           | None \<Rightarrow> \<lparr>src_csi = None, src_awsElasticBlockStore = None\<rparr>))"

definition getDestStorageClass :: "string \<Rightarrow> strmap option \<Rightarrow> string" where
  "getDestStorageClass sourceStorageClass mapping =
     (case mapping of
        None \<Rightarrow> sourceStorageClass
      | Some m \<Rightarrow>
          (case map_of m sourceStorageClass of
             Some dest \<Rightarrow> dest
           | None \<Rightarrow> sourceStorageClass))"

subsection \<open>TranslatePV\<close>

text \<open>
  The two pointer arguments are options, \<open>None\<close> being nil. The destination objects
  are built as the composite literals of the source build them, and then updated by the
  conditional assignments that follow each literal.
\<close>

definition TranslatePV ::
  "PersistentVolume option \<Rightarrow> PersistentVolumeClaim option \<Rightarrow> PVTranslationConfig
     \<Rightarrow> translate_error + TranslationResult" where
  "TranslatePV sourcePV sourcePVC config =
     (case sourcePV of
        None \<Rightarrow> Inl NilPV
      | Some spv \<Rightarrow>
     (case sourcePVC of
        None \<Rightarrow> Inl NilPVC
      | Some spvc \<Rightarrow>
     (case extractEBSVolumeID spv of
        Inl err \<Rightarrow> Inl (ExtractFailed err)
      | Inr volumeID \<Rightarrow>
     (let az = extractAvailabilityZone spv;
          destStorageClass = getDestStorageClass (pv_storageClassName spv) (cfg_storageClassMapping config);
          destPVName = ''migrated-'' @ cfg_destNamespace config @ ''-'' @ cfg_destPVCName config;
          source = buildPVSource spv volumeID;
          destPV0 =
            \<lparr>pv_name = destPVName,
             pv_uid = [],
             pv_labels = Some
               [(''migration.aqua.io/migrated'', ''true''),
                (''migration.aqua.io/source-pv'', pv_name spv),
                (''migration.aqua.io/dest-namespace'', cfg_destNamespace config),
                (''migration.aqua.io/dest-pvc'', cfg_destPVCName config)],
             pv_annotations = Some
               [(''migration.aqua.io/source-pv-uid'', pv_uid spv),
                (''migration.aqua.io/volume-id'', volumeID)],
             pv_capacity = Some [(ResourceStorage, quantity_at (pv_capacity spv) ResourceStorage)],
             pv_accessModes = pv_accessModes spv,
             pv_reclaimPolicy = PersistentVolumeReclaimRetain,
             pv_storageClassName = destStorageClass,
             pv_claimRef = Some
               \<lparr>ref_apiVersion = ''v1'',
                ref_kind = ''PersistentVolumeClaim'',
                ref_namespace = cfg_destNamespace config,
                ref_name = cfg_destPVCName config\<rparr>,
             pv_csi = src_csi source,
             pv_awsElasticBlockStore = src_awsElasticBlockStore source,
             pv_volumeMode = None,
             pv_nodeAffinity = None\<rparr>;
          destPV1 =
            (if pv_volumeMode spv \<noteq> None
             then destPV0\<lparr>pv_volumeMode := pv_volumeMode spv\<rparr>
             else destPV0);
          destPV =
            (if cfg_preserveNodeAffinity config \<and> pv_nodeAffinity spv \<noteq> None
             then destPV1\<lparr>pv_nodeAffinity := pv_nodeAffinity spv\<rparr>
             else if az \<noteq> []
             then destPV1\<lparr>pv_nodeAffinity := Some (buildNodeAffinityForZone az)\<rparr>
             else destPV1);
          destPVC0 =
            \<lparr>pvc_name = cfg_destPVCName config,
             pvc_namespace = cfg_destNamespace config,
             pvc_uid = [],
             pvc_labels = Some
               [(''migration.aqua.io/migrated'', ''true''),
                (''migration.aqua.io/source-pvc'', pvc_name spvc)],
             pvc_annotations = Some
               [(''migration.aqua.io/source-pvc-uid'', pvc_uid spvc),
                (''migration.aqua.io/volume-id'', volumeID)],
             pvc_accessModes = pvc_accessModes spvc,
             pvc_requests = Some [(ResourceStorage, quantity_at (pvc_requests spvc) ResourceStorage)],
             pvc_volumeName = destPVName,
             pvc_storageClassName = None,
             pvc_volumeMode = None\<rparr>;
          destPVC1 =
            (if destStorageClass \<noteq> []
             then destPVC0\<lparr>pvc_storageClassName := Some destStorageClass\<rparr>
             else destPVC0);
          destPVC =
            (if pvc_volumeMode spvc \<noteq> None
             then destPVC1\<lparr>pvc_volumeMode := pvc_volumeMode spvc\<rparr>
             else destPVC1)
      in Inr \<lparr>res_pv = destPV,
               res_pvc = destPVC,
               res_volumeID = volumeID,
               res_availabilityZone = az\<rparr>))))"

subsection \<open>GetPVCNameForStatefulSetPod and the formatting verbs it uses\<close>

text \<open>\<open>%d\<close> of a Go \<open>int\<close>: the decimal digits, with a sign when negative.\<close>

definition digit_char :: "nat \<Rightarrow> char" where
  "digit_char d = char_of (48 + d)"

fun fmt_nat :: "nat \<Rightarrow> string" where
  "fmt_nat n = (if n < 10 then [digit_char n] else fmt_nat (n div 10) @ [digit_char (n mod 10)])"

definition fmt_d :: "int \<Rightarrow> string" where
  "fmt_d i = (if i < 0 then CHR ''-'' # fmt_nat (nat (- i)) else fmt_nat (nat i))"

definition GetPVCNameForStatefulSetPod :: "string \<Rightarrow> string \<Rightarrow> int \<Rightarrow> string" where
  "GetPVCNameForStatefulSetPod volumeClaimTemplateName stsName index =
     volumeClaimTemplateName @ ''-'' @ stsName @ ''-'' @ fmt_d index"

subsection \<open>Zero values and the objects of the documented scenarios\<close>

definition PersistentVolume_zero :: PersistentVolume where
  "PersistentVolume_zero =
     \<lparr>pv_name = [], pv_uid = [], pv_labels = None, pv_annotations = None,
      pv_capacity = None, pv_accessModes = [], pv_reclaimPolicy = [],
      pv_storageClassName = [], pv_claimRef = None, pv_csi = None,
      pv_awsElasticBlockStore = None, pv_volumeMode = None, pv_nodeAffinity = None\<rparr>"

definition PersistentVolumeClaim_zero :: PersistentVolumeClaim where
  "PersistentVolumeClaim_zero =
     \<lparr>pvc_name = [], pvc_namespace = [], pvc_uid = [], pvc_labels = None,
      pvc_annotations = None, pvc_accessModes = [], pvc_requests = None,
      pvc_volumeName = [], pvc_storageClassName = None, pvc_volumeMode = None\<rparr>"

definition csi_source :: "string \<Rightarrow> string \<Rightarrow> CSIPersistentVolumeSource" where
  "csi_source drv h =
     \<lparr>csi_driver = drv, csi_volumeHandle = h, csi_fsType = ''ext4'',
      csi_readOnly = False, csi_volumeAttributes = None\<rparr>"

definition legacy_source :: "string \<Rightarrow> AWSElasticBlockStoreVolumeSource" where
  "legacy_source vid =
     \<lparr>ebs_volumeID = vid, ebs_fsType = ''ext4'', ebs_partition = 0, ebs_readOnly = False\<rparr>"

definition legacy_scenario_pv :: PersistentVolume where
  "legacy_scenario_pv =
     PersistentVolume_zero\<lparr>pv_name := ''legacy-ebs-pv'',
       pv_awsElasticBlockStore := Some (legacy_source ''aws://eu-west-1b/vol-legacy1'')\<rparr>"

definition legacy_scenario_config :: PVTranslationConfig where
  "legacy_scenario_config =
     \<lparr>cfg_destNamespace = ''dest'', cfg_destPVCName = ''legacy-pvc'',
      cfg_storageClassMapping = None, cfg_preserveNodeAffinity = True\<rparr>"

section \<open>Cloud volume waiter (internal/aws)\<close>

text \<open>
  A \<open>time.Duration\<close> is a number of nanoseconds; the waiter only compares durations with
  zero and passes them on, so no arithmetic can overflow and \<^typ>\<open>int\<close> stands for the
  64-bit value. \<open>types.VolumeState\<close> is a string type of the cloud SDK.
\<close>

type_synonym duration = int

definition Second :: duration where
  "Second = 1000000000"

definition Minute :: duration where
  "Minute = 60 * Second"

type_synonym VolumeState = string

definition VolumeStateCreating :: VolumeState where "VolumeStateCreating = ''creating''"
definition VolumeStateAvailable :: VolumeState where "VolumeStateAvailable = ''available''"
definition VolumeStateInUse :: VolumeState where "VolumeStateInUse = ''in-use''"
definition VolumeStateDeleting :: VolumeState where "VolumeStateDeleting = ''deleting''"
definition VolumeStateDeleted :: VolumeState where "VolumeStateDeleted = ''deleted''"
definition VolumeStateError :: VolumeState where "VolumeStateError = ''error''"

record VolumeAttachment =
  va_instanceID :: string
  va_device :: string
  va_state :: string

record VolumeInfo =
  vi_volumeID :: string
  vi_state :: VolumeState
  vi_availabilityZone :: string
  vi_size :: int
  vi_volumeType :: string
  vi_attachments :: "VolumeAttachment list"
  vi_tags :: strmap

text \<open>
  What \<open>DescribeVolumes\<close> answers: the SDK's volume objects, whose optional fields are
  pointers (\<open>aws.ToString\<close> and \<open>aws.ToInt32\<close> read nil as the zero value).
\<close>

record ec2_VolumeAttachment =
  att_instanceId :: "string option"
  att_device :: "string option"
  att_state :: string

record ec2_Volume =
  vol_volumeId :: "string option"
  vol_state :: VolumeState
  vol_availabilityZone :: "string option"
  vol_size :: "int option"
  vol_volumeType :: string
  vol_attachments :: "ec2_VolumeAttachment list"
  vol_tags :: "(string option \<times> string option) list"

type_synonym describe_result = "string + ec2_Volume list"

definition aws_ToString :: "string option \<Rightarrow> string" where
  "aws_ToString p = (case p of None \<Rightarrow> [] | Some s \<Rightarrow> s)"

definition aws_ToInt32 :: "int option \<Rightarrow> int" where
  "aws_ToInt32 p = (case p of None \<Rightarrow> 0 | Some i \<Rightarrow> i)"

datatype info_error =
    DescribeFailed string string
  | VolumeNotFound string

fun GetVolumeInfo_tags :: "(string option \<times> string option) list \<Rightarrow> strmap \<Rightarrow> strmap" where
  "GetVolumeInfo_tags [] tags = tags"
| "GetVolumeInfo_tags ((k, v) # rest) tags =
     GetVolumeInfo_tags rest (AList.update (aws_ToString k) (aws_ToString v) tags)"

text \<open>\<open>GetVolumeInfo\<close>, given the answer of the cloud service to its one request.\<close>

definition GetVolumeInfo :: "describe_result \<Rightarrow> string \<Rightarrow> info_error + VolumeInfo" where
  "GetVolumeInfo resp volumeID =
     (case resp of
        Inl err \<Rightarrow> Inl (DescribeFailed volumeID err)
      | Inr volumes \<Rightarrow>
          (case volumes of
             [] \<Rightarrow> Inl (VolumeNotFound volumeID)
           | vol # _ \<Rightarrow>
               Inr \<lparr>vi_volumeID = aws_ToString (vol_volumeId vol),
                    vi_state = vol_state vol,
                    vi_availabilityZone = aws_ToString (vol_availabilityZone vol),
                    vi_size = aws_ToInt32 (vol_size vol),
                    vi_volumeType = vol_volumeType vol,
                    vi_attachments =
                      map (\<lambda>att. \<lparr>va_instanceID = aws_ToString (att_instanceId att),
                                  va_device = aws_ToString (att_device att),
                                  va_state = att_state att\<rparr>) (vol_attachments vol),
                    vi_tags = GetVolumeInfo_tags (vol_tags vol) []\<rparr>))"

record WaitForVolumeDetachConfig =
  wcfg_pollInterval :: duration
  wcfg_timeout :: duration
  wcfg_onPoll :: bool

definition DefaultWaitConfig :: WaitForVolumeDetachConfig where
  "DefaultWaitConfig =
     \<lparr>wcfg_pollInterval = 5 * Second, wcfg_timeout = 5 * Minute, wcfg_onPoll = False\<rparr>"

text \<open>
  The callback \<open>OnPoll\<close> is kept as the flag \<open>OnPoll != nil\<close>; each of its invocations
  is recorded, with its argument, in the list of effects the waiter returns, together with
  the arming of the deadline and of the ticker and with every request to the cloud service.

  The waiter blocks in \<open>select\<close> on the context and the ticker. What the clock and the
  cloud service do is the script of the wait: the answer to the immediate request, the
  answers to the requests made at the ticks that \<open>select\<close> serves before the context
  ends, and how the context ends. The script is a function of the armed timeout and the
  armed poll interval.
\<close>

datatype ctx_end = DeadlineExceeded | Canceled

record detach_script =
  ds_initial :: describe_result
  ds_ticks :: "describe_result list"
  ds_end :: ctx_end

type_synonym detach_env = "duration \<Rightarrow> duration \<Rightarrow> detach_script"

datatype wait_effect =
    WithTimeout duration
  | NewTicker duration
  | DescribeVolumes string
  | OnPoll VolumeInfo

datatype wait_error =
    InitialInfoFailed info_error
  | InfoFailed info_error
  | Timeout string duration
  | ContextError ctx_end
  | ErrorState string
  | VolumeGone string

datatype wait_result = Returned "wait_error option" | Panicked string

text \<open>The \<open>for { select { ... } }\<close> loop: one equation per branch of the \<open>select\<close>.\<close>

fun WaitForVolumeDetach_loop ::
  "string \<Rightarrow> WaitForVolumeDetachConfig \<Rightarrow> describe_result list \<Rightarrow> ctx_end
     \<Rightarrow> wait_error option \<times> wait_effect list" where
  "WaitForVolumeDetach_loop volumeID cfg [] e =
     (if e = DeadlineExceeded then (Some (Timeout volumeID (wcfg_timeout cfg)), [])
      else (Some (ContextError e), []))"
| "WaitForVolumeDetach_loop volumeID cfg (resp # rest) e =
     (case GetVolumeInfo resp volumeID of
        Inl err \<Rightarrow> (Some (InfoFailed err), [DescribeVolumes volumeID])
      | Inr info \<Rightarrow>
          (let polled = DescribeVolumes volumeID # (if wcfg_onPoll cfg then [OnPoll info] else []) in
           if vi_state info = VolumeStateAvailable then (None, polled)
           else if vi_state info = VolumeStateError then (Some (ErrorState volumeID), polled)
           else if vi_state info = VolumeStateDeleted \<or> vi_state info = VolumeStateDeleting
           then (Some (VolumeGone volumeID), polled)
           else (case WaitForVolumeDetach_loop volumeID cfg rest e of
                   (r, effects) \<Rightarrow> (r, polled @ effects))))"

text \<open>\<open>time.NewTicker\<close> panics on an interval that is not positive.\<close>

text \<open>
  The body of \<open>WaitForVolumeDetach\<close> from \<open>context.WithTimeout\<close> on, for the
  configuration as the two assignments at the head of the function have left it.
\<close>

definition WaitForVolumeDetach_armed ::
  "detach_env \<Rightarrow> string \<Rightarrow> WaitForVolumeDetachConfig \<Rightarrow> wait_result \<times> wait_effect list" where
  "WaitForVolumeDetach_armed env volumeID cfg =
     (let armed = [WithTimeout (wcfg_timeout cfg), NewTicker (wcfg_pollInterval cfg)]
      in if wcfg_pollInterval cfg \<le> 0
         then (Panicked ''non-positive interval for NewTicker'', armed)
         else
           (let script = env (wcfg_timeout cfg) (wcfg_pollInterval cfg) in
            case GetVolumeInfo (ds_initial script) volumeID of
              Inl err \<Rightarrow> (Returned (Some (InitialInfoFailed err)), armed @ [DescribeVolumes volumeID])
            | Inr info \<Rightarrow>
                if vi_state info = VolumeStateAvailable
                then (Returned None, armed @ [DescribeVolumes volumeID])
                else
                  (case WaitForVolumeDetach_loop volumeID cfg (ds_ticks script) (ds_end script) of
                     (r, effects) \<Rightarrow>
                       (Returned r,
                        armed @ DescribeVolumes volumeID
                          # (if wcfg_onPoll cfg then [OnPoll info] else []) @ effects))))"

definition WaitForVolumeDetach ::
  "detach_env \<Rightarrow> string \<Rightarrow> WaitForVolumeDetachConfig \<Rightarrow> wait_result \<times> wait_effect list" where
  "WaitForVolumeDetach env volumeID cfg0 =
     (let cfg1 = (if wcfg_pollInterval cfg0 = 0 then cfg0\<lparr>wcfg_pollInterval := 5 * Second\<rparr> else cfg0);
          cfg = (if wcfg_timeout cfg1 = 0 then cfg1\<lparr>wcfg_timeout := 5 * Minute\<rparr> else cfg1)
      in WaitForVolumeDetach_armed env volumeID cfg)"

text \<open>
  The messages of the waiter's errors, as the format strings of the source build them;
  \<open>fmt_v\<close> is \<open>%v\<close> of a \<open>time.Duration\<close>, and \<open>err_v\<close> \<open>%v\<close> of the SDK's error.
\<close>

definition info_error_message :: "info_error \<Rightarrow> string" where
  "info_error_message err =
     (case err of
        DescribeFailed volumeID e \<Rightarrow> ''failed to describe volume '' @ volumeID @ '': '' @ e
      | VolumeNotFound volumeID \<Rightarrow> ''volume '' @ volumeID @ '' not found'')"

definition wait_error_message :: "(duration \<Rightarrow> string) \<Rightarrow> wait_error \<Rightarrow> string" where
  "wait_error_message fmt_v err =
     (case err of
        InitialInfoFailed e \<Rightarrow> ''failed to get initial volume info: '' @ info_error_message e
      | InfoFailed e \<Rightarrow> ''failed to get volume info: '' @ info_error_message e
      | Timeout volumeID t \<Rightarrow>
          ''timeout waiting for volume '' @ volumeID @ '' to detach (waited '' @ fmt_v t @ '')''
      | ContextError e \<Rightarrow>
          (if e = DeadlineExceeded then ''context deadline exceeded'' else ''context canceled'')
      | ErrorState volumeID \<Rightarrow> ''volume '' @ volumeID @ '' is in error state''
      | VolumeGone volumeID \<Rightarrow> ''volume '' @ volumeID @ '' is being deleted or already deleted'')"

text \<open>A volume as the cloud service reports it, with a given state.\<close>

definition volume_in_state :: "string \<Rightarrow> VolumeState \<Rightarrow> ec2_Volume" where
  "volume_in_state volumeID st =
     \<lparr>vol_volumeId = Some volumeID, vol_state = st, vol_availabilityZone = Some ''us-east-1a'',
      vol_size = Some 10, vol_volumeType = ''gp3'', vol_attachments = [], vol_tags = []\<rparr>"

text \<open>The effects of one pass through the tick branch: the request, then the callback.\<close>

definition poll_effects :: "string \<Rightarrow> WaitForVolumeDetachConfig \<Rightarrow> describe_result \<Rightarrow> wait_effect list" where
  "poll_effects volumeID cfg resp =
     DescribeVolumes volumeID #
       (case GetVolumeInfo resp volumeID of
          Inl err \<Rightarrow> []
        | Inr info \<Rightarrow> if wcfg_onPoll cfg then [OnPoll info] else [])"

text \<open>Scripts, answers and configurations of the scenarios.\<close>

definition scripted :: "describe_result \<Rightarrow> describe_result list \<Rightarrow> ctx_end \<Rightarrow> detach_env" where
  "scripted i ts e = (\<lambda>timeout interval. \<lparr>ds_initial = i, ds_ticks = ts, ds_end = e\<rparr>)"

definition reported :: "string \<Rightarrow> VolumeState \<Rightarrow> describe_result" where
  "reported volumeID st = Inr [volume_in_state volumeID st]"

definition polling_config :: "duration \<Rightarrow> WaitForVolumeDetachConfig" where
  "polling_config timeout =
     \<lparr>wcfg_pollInterval = 5 * Second, wcfg_timeout = timeout, wcfg_onPoll = True\<rparr>"

text \<open>
  A source affinity that differs from the synthesized one in its label, operator and values.
\<close>

definition legacy_label_affinity :: VolumeNodeAffinity where
  "legacy_label_affinity =
     \<lparr>required = Some \<lparr>nodeSelectorTerms =
        [\<lparr>matchExpressions =
            [\<lparr>nsr_key = ''failure-domain.beta.kubernetes.io/zone'',
              nsr_operator = ''NotIn'',
              nsr_values = [''eu-west-1b'', ''us-east-1a'']\<rparr>],
          matchFields = []\<rparr>]\<rparr>\<rparr>"

text \<open>The volume information read from \<open>reported\<close>.\<close>

definition reported_info :: "string \<Rightarrow> VolumeState \<Rightarrow> VolumeInfo" where
  "reported_info volumeID st =
     \<lparr>vi_volumeID = volumeID, vi_state = st, vi_availabilityZone = ''us-east-1a'', vi_size = 10,
      vi_volumeType = ''gp3'', vi_attachments = [], vi_tags = []\<rparr>"

section \<open>Migration resource (api/v1alpha1/types.go)\<close>

text \<open>
  A Go \<open>int\<close> is a 64-bit word and an \<open>int32\<close> a 32-bit word, both read as
  signed by \<open>sint\<close>: \<open>+\<close> wraps around, comparisons are comparisons of the
  \<open>sint\<close> values, \<open>scast\<close> is the sign-extending conversion \<open>int(x)\<close> and
  also the truncating conversion \<open>int32(x)\<close>. A \<open>metav1.Time\<close> is an
  instant, kept as a number. \<open>MigrationPhase\<close> is a string type.
\<close>

type_synonym go_int = "64 word"
type_synonym go_int32 = "32 word"
type_synonym time = nat
type_synonym MigrationPhase = string

definition PhasePending :: MigrationPhase where "PhasePending = ''Pending''"
definition PhasePreFlightChecks :: MigrationPhase where "PhasePreFlightChecks = ''PreFlightChecks''"
definition PhaseFreezingSource :: MigrationPhase where "PhaseFreezingSource = ''FreezingSource''"
definition PhaseMigratingPods :: MigrationPhase where "PhaseMigratingPods = ''MigratingPods''"
definition PhaseFinalizing :: MigrationPhase where "PhaseFinalizing = ''Finalizing''"
definition PhaseCompleted :: MigrationPhase where "PhaseCompleted = ''Completed''"
definition PhaseFailed :: MigrationPhase where "PhaseFailed = ''Failed''"

record ContextRef =
  ctx_kubeConfigSecret :: string
  ctx_kubeConfigKey :: string

record StatefulSetMigrationSpec =
  spec_migrationID :: string
  spec_sourceCluster :: ContextRef
  spec_sourceNamespace :: string
  spec_statefulSetName :: string
  spec_destCluster :: ContextRef
  spec_destNamespace :: string
  spec_force :: bool
  spec_storageClassMapping :: "strmap option"
  spec_volumeDetachTimeout :: "duration option"
  spec_podReadyTimeout :: "duration option"

record MigratedPodInfo =
  mp_index :: go_int
  mp_podName :: string
  mp_volumeID :: string
  mp_migratedAt :: time

record Condition =
  cond_type :: string
  cond_status :: string
  cond_reason :: string
  cond_message :: string
  cond_lastTransitionTime :: time

record StatefulSetMigrationStatus =
  st_phase :: MigrationPhase
  st_currentIndex :: go_int
  st_totalReplicas :: go_int
  st_migratedPods :: "MigratedPodInfo list"
  st_conditions :: "Condition list"
  st_lastError :: string
  st_startTime :: "time option"
  st_completionTime :: "time option"
  st_sourceStatefulSetUID :: string
  st_preservedPVs :: "string list"

record StatefulSetMigration =
  mig_name :: string
  mig_namespace :: string
  mig_finalizers :: "string list"
  mig_deletionTimestamp :: "time option"
  mig_spec :: StatefulSetMigrationSpec
  mig_status :: StatefulSetMigrationStatus

section \<open>The clusters and the environment of a reconcile\<close>

text \<open>
  A replica group as the controller reads and writes it; the fields of its spec that the
  controller copies but never inspects are one opaque value. A pod is read for its
  conditions only, as pairs of type and status.
\<close>

record StatefulSet =
  sts_name :: string
  sts_namespace :: string
  sts_uid :: string
  sts_labels :: "strmap option"
  sts_annotations :: "strmap option"
  sts_replicas :: "go_int32 option"
  sts_serviceName :: string
  sts_templateNamespace :: string
  sts_specRest :: string

record Pod =
  pod_conditions :: "(string \<times> string) list"

text \<open>
  The objects of a remote cluster that the controller reads or writes. Services are their
  namespace and name.
\<close>

record cluster =
  cl_namespaces :: "string list"
  cl_statefulsets :: "StatefulSet list"
  cl_services :: "(string \<times> string) list"
  cl_pvcs :: "PersistentVolumeClaim list"
  cl_pvs :: "PersistentVolume list"

datatype side = Source | Dest

text \<open>The requests a reconcile makes, in the order it makes them.\<close>

datatype call =
    LocalGet
  | LocalUpdate
  | LocalStatusUpdate
  | GetClientFromSecret string string string
  | ServerVersion side
  | ApiGet side string string string
  | ApiList side string string
  | ApiCreate side string string string
  | ApiUpdate side string string string
  | ApiDelete side string string string
  | ApiDeleteOrphan side string string string

text \<open>
  The world is the migration resource stored in the local cluster, the two remote
  clusters, and the requests made so far in the current reconcile.

  The environment of one reconcile is everything the controller does not decide: which
  request fails for a reason of its own (by the position of the request in the reconcile,
  with the message of the error), the clock, the pods (owned by the clusters' own
  controllers: whether the pod asked for at a given request exists, and its conditions),
  the number of ticks each polling loop is served before its context ends and how the
  context ends, and the script of the cloud volume waiter. It also carries the library's
  \<open>%v\<close> of a \<open>time.Duration\<close>, which the messages of the waiter use.
\<close>

record world =
  w_migration :: "StatefulSetMigration option"
  w_source :: cluster
  w_dest :: cluster
  w_calls :: "call list"

record env =
  e_fail :: "nat \<Rightarrow> string option"
  e_now :: "nat \<Rightarrow> time"
  e_pod :: "nat \<Rightarrow> Pod option"
  e_deletion_ticks :: nat
  e_ready_ticks :: "duration \<Rightarrow> nat"
  e_ctx_end :: ctx_end
  e_detach :: detach_env
  e_fmt_v :: "duration \<Rightarrow> string"

datatype api_error =
    NotFound string
  | AlreadyExists string
  | Failure string

definition IsNotFound :: "api_error \<Rightarrow> bool" where
  "IsNotFound err = (case err of NotFound _ \<Rightarrow> True | _ \<Rightarrow> False)"

definition IsAlreadyExists :: "api_error \<Rightarrow> bool" where
  "IsAlreadyExists err = (case err of AlreadyExists _ \<Rightarrow> True | _ \<Rightarrow> False)"

text \<open>\<open>%v\<close> of an error: its message.\<close>

definition error_v :: "api_error \<Rightarrow> string" where
  "error_v err = (case err of NotFound m \<Rightarrow> m | AlreadyExists m \<Rightarrow> m | Failure m \<Rightarrow> m)"

text \<open>
  \<open>%q\<close> of a string without characters that need escaping, as the names of
  Kubernetes objects are: the string between double quotes.
\<close>

definition fmt_q :: "string \<Rightarrow> string" where
  "fmt_q s = [CHR 0x22] @ s @ [CHR 0x22]"

definition not_found :: "string \<Rightarrow> string \<Rightarrow> api_error" where
  "not_found resource name = NotFound (resource @ '' '' @ fmt_q name @ '' not found'')"

definition already_exists :: "string \<Rightarrow> string \<Rightarrow> api_error" where
  "already_exists resource name = AlreadyExists (resource @ '' '' @ fmt_q name @ '' already exists'')"

subsection \<open>Requests\<close>

text \<open>
  Every request is recorded, and fails when the environment says that the request at this
  position fails. Otherwise a request to a remote cluster is answered from the cluster's
  objects.
\<close>

definition api :: "env \<Rightarrow> call \<Rightarrow> world \<Rightarrow> string option \<times> world" where
  "api e c w = (e_fail e (length (w_calls w)), w\<lparr>w_calls := w_calls w @ [c]\<rparr>)"

definition Now :: "env \<Rightarrow> world \<Rightarrow> time" where
  "Now e w = e_now e (length (w_calls w))"

definition cluster_of :: "side \<Rightarrow> world \<Rightarrow> cluster" where
  "cluster_of s w = (case s of Source \<Rightarrow> w_source w | Dest \<Rightarrow> w_dest w)"

definition set_cluster :: "side \<Rightarrow> cluster \<Rightarrow> world \<Rightarrow> world" where
  "set_cluster s c w = (case s of Source \<Rightarrow> w\<lparr>w_source := c\<rparr> | Dest \<Rightarrow> w\<lparr>w_dest := c\<rparr>)"

definition get_statefulset ::
  "env \<Rightarrow> side \<Rightarrow> string \<Rightarrow> string \<Rightarrow> world \<Rightarrow> (api_error + StatefulSet) \<times> world" where
  "get_statefulset e s ns name w =
     (case api e (ApiGet s ''statefulsets.apps'' ns name) w of
        (Some msg, w1) \<Rightarrow> (Inl (Failure msg), w1)
      | (None, w1) \<Rightarrow>
          (case find (\<lambda>x. sts_namespace x = ns \<and> sts_name x = name) (cl_statefulsets (cluster_of s w1)) of
             None \<Rightarrow> (Inl (not_found ''statefulsets.apps'' name), w1)
           | Some x \<Rightarrow> (Inr x, w1)))"

definition get_namespace ::
  "env \<Rightarrow> side \<Rightarrow> string \<Rightarrow> world \<Rightarrow> (api_error + string) \<times> world" where
  "get_namespace e s name w =
     (case api e (ApiGet s ''namespaces'' [] name) w of
        (Some msg, w1) \<Rightarrow> (Inl (Failure msg), w1)
      | (None, w1) \<Rightarrow>
          (if name \<in> set (cl_namespaces (cluster_of s w1)) then (Inr name, w1)
           else (Inl (not_found ''namespaces'' name), w1)))"

definition get_service ::
  "env \<Rightarrow> side \<Rightarrow> string \<Rightarrow> string \<Rightarrow> world \<Rightarrow> (api_error + string \<times> string) \<times> world" where
  "get_service e s ns name w =
     (case api e (ApiGet s ''services'' ns name) w of
        (Some msg, w1) \<Rightarrow> (Inl (Failure msg), w1)
      | (None, w1) \<Rightarrow>
          (if (ns, name) \<in> set (cl_services (cluster_of s w1)) then (Inr (ns, name), w1)
           else (Inl (not_found ''services'' name), w1)))"

definition get_pvc ::
  "env \<Rightarrow> side \<Rightarrow> string \<Rightarrow> string \<Rightarrow> world \<Rightarrow> (api_error + PersistentVolumeClaim) \<times> world" where
  "get_pvc e s ns name w =
     (case api e (ApiGet s ''persistentvolumeclaims'' ns name) w of
        (Some msg, w1) \<Rightarrow> (Inl (Failure msg), w1)
      | (None, w1) \<Rightarrow>
          (case find (\<lambda>x. pvc_namespace x = ns \<and> pvc_name x = name) (cl_pvcs (cluster_of s w1)) of
             None \<Rightarrow> (Inl (not_found ''persistentvolumeclaims'' name), w1)
           | Some x \<Rightarrow> (Inr x, w1)))"

definition list_pvcs ::
  "env \<Rightarrow> side \<Rightarrow> string \<Rightarrow> world \<Rightarrow> (api_error + PersistentVolumeClaim list) \<times> world" where
  "list_pvcs e s ns w =
     (case api e (ApiList s ''persistentvolumeclaims'' ns) w of
        (Some msg, w1) \<Rightarrow> (Inl (Failure msg), w1)
      | (None, w1) \<Rightarrow> (Inr (filter (\<lambda>x. pvc_namespace x = ns) (cl_pvcs (cluster_of s w1))), w1))"

definition get_pv ::
  "env \<Rightarrow> side \<Rightarrow> string \<Rightarrow> world \<Rightarrow> (api_error + PersistentVolume) \<times> world" where
  "get_pv e s name w =
     (case api e (ApiGet s ''persistentvolumes'' [] name) w of
        (Some msg, w1) \<Rightarrow> (Inl (Failure msg), w1)
      | (None, w1) \<Rightarrow>
          (case find (\<lambda>x. pv_name x = name) (cl_pvs (cluster_of s w1)) of
             None \<Rightarrow> (Inl (not_found ''persistentvolumes'' name), w1)
           | Some x \<Rightarrow> (Inr x, w1)))"

text \<open>An update replaces the stored object of the same name; the object must exist.\<close>

definition update_pv ::
  "env \<Rightarrow> side \<Rightarrow> PersistentVolume \<Rightarrow> world \<Rightarrow> api_error option \<times> world" where
  "update_pv e s pv w =
     (case api e (ApiUpdate s ''persistentvolumes'' [] (pv_name pv)) w of
        (Some msg, w1) \<Rightarrow> (Some (Failure msg), w1)
      | (None, w1) \<Rightarrow>
          (let c = cluster_of s w1 in
           if \<exists>x \<in> set (cl_pvs c). pv_name x = pv_name pv
           then (None, set_cluster s
                   (c\<lparr>cl_pvs := map (\<lambda>x. if pv_name x = pv_name pv then pv else x) (cl_pvs c)\<rparr>) w1)
           else (Some (not_found ''persistentvolumes'' (pv_name pv)), w1)))"

definition update_statefulset ::
  "env \<Rightarrow> side \<Rightarrow> StatefulSet \<Rightarrow> world \<Rightarrow> api_error option \<times> world" where
  "update_statefulset e s sts w =
     (case api e (ApiUpdate s ''statefulsets.apps'' (sts_namespace sts) (sts_name sts)) w of
        (Some msg, w1) \<Rightarrow> (Some (Failure msg), w1)
      | (None, w1) \<Rightarrow>
          (let c = cluster_of s w1;
               same = (\<lambda>x. sts_namespace x = sts_namespace sts \<and> sts_name x = sts_name sts) in
           if \<exists>x \<in> set (cl_statefulsets c). same x
           then (None, set_cluster s
                   (c\<lparr>cl_statefulsets := map (\<lambda>x. if same x then sts else x) (cl_statefulsets c)\<rparr>) w1)
           else (Some (not_found ''statefulsets.apps'' (sts_name sts)), w1)))"

text \<open>A create adds the object, unless one of its name is there.\<close>

definition create_pv ::
  "env \<Rightarrow> side \<Rightarrow> PersistentVolume \<Rightarrow> world \<Rightarrow> api_error option \<times> world" where
  "create_pv e s pv w =
     (case api e (ApiCreate s ''persistentvolumes'' [] (pv_name pv)) w of
        (Some msg, w1) \<Rightarrow> (Some (Failure msg), w1)
      | (None, w1) \<Rightarrow>
          (let c = cluster_of s w1 in
           if \<exists>x \<in> set (cl_pvs c). pv_name x = pv_name pv
           then (Some (already_exists ''persistentvolumes'' (pv_name pv)), w1)
           else (None, set_cluster s (c\<lparr>cl_pvs := cl_pvs c @ [pv]\<rparr>) w1)))"

definition create_pvc ::
  "env \<Rightarrow> side \<Rightarrow> PersistentVolumeClaim \<Rightarrow> world \<Rightarrow> api_error option \<times> world" where
  "create_pvc e s pvc w =
     (case api e (ApiCreate s ''persistentvolumeclaims'' (pvc_namespace pvc) (pvc_name pvc)) w of
        (Some msg, w1) \<Rightarrow> (Some (Failure msg), w1)
      | (None, w1) \<Rightarrow>
          (let c = cluster_of s w1 in
           if \<exists>x \<in> set (cl_pvcs c). pvc_namespace x = pvc_namespace pvc \<and> pvc_name x = pvc_name pvc
           then (Some (already_exists ''persistentvolumeclaims'' (pvc_name pvc)), w1)
           else (None, set_cluster s (c\<lparr>cl_pvcs := cl_pvcs c @ [pvc]\<rparr>) w1)))"

definition create_statefulset ::
  "env \<Rightarrow> side \<Rightarrow> StatefulSet \<Rightarrow> world \<Rightarrow> api_error option \<times> world" where
  "create_statefulset e s sts w =
     (case api e (ApiCreate s ''statefulsets.apps'' (sts_namespace sts) (sts_name sts)) w of
        (Some msg, w1) \<Rightarrow> (Some (Failure msg), w1)
      | (None, w1) \<Rightarrow>
          (let c = cluster_of s w1 in
           if \<exists>x \<in> set (cl_statefulsets c). sts_namespace x = sts_namespace sts \<and> sts_name x = sts_name sts
           then (Some (already_exists ''statefulsets.apps'' (sts_name sts)), w1)
           else (None, set_cluster s (c\<lparr>cl_statefulsets := cl_statefulsets c @ [sts]\<rparr>) w1)))"

text \<open>A delete removes the object of that name; the object must exist.\<close>

definition delete_statefulset_orphan ::
  "env \<Rightarrow> side \<Rightarrow> StatefulSet \<Rightarrow> world \<Rightarrow> api_error option \<times> world" where
  "delete_statefulset_orphan e s sts w =
     (case api e (ApiDeleteOrphan s ''statefulsets.apps'' (sts_namespace sts) (sts_name sts)) w of
        (Some msg, w1) \<Rightarrow> (Some (Failure msg), w1)
      | (None, w1) \<Rightarrow>
          (let c = cluster_of s w1;
               same = (\<lambda>x. sts_namespace x = sts_namespace sts \<and> sts_name x = sts_name sts) in
           if \<exists>x \<in> set (cl_statefulsets c). same x
           then (None, set_cluster s
                   (c\<lparr>cl_statefulsets := filter (\<lambda>x. \<not> same x) (cl_statefulsets c)\<rparr>) w1)
           else (Some (not_found ''statefulsets.apps'' (sts_name sts)), w1)))"

definition delete_pvc ::
  "env \<Rightarrow> side \<Rightarrow> PersistentVolumeClaim \<Rightarrow> world \<Rightarrow> api_error option \<times> world" where
  "delete_pvc e s pvc w =
     (case api e (ApiDelete s ''persistentvolumeclaims'' (pvc_namespace pvc) (pvc_name pvc)) w of
        (Some msg, w1) \<Rightarrow> (Some (Failure msg), w1)
      | (None, w1) \<Rightarrow>
          (let c = cluster_of s w1;
               same = (\<lambda>x. pvc_namespace x = pvc_namespace pvc \<and> pvc_name x = pvc_name pvc) in
           if \<exists>x \<in> set (cl_pvcs c). same x
           then (None, set_cluster s (c\<lparr>cl_pvcs := filter (\<lambda>x. \<not> same x) (cl_pvcs c)\<rparr>) w1)
           else (Some (not_found ''persistentvolumeclaims'' (pvc_name pvc)), w1)))"

definition delete_pv ::
  "env \<Rightarrow> side \<Rightarrow> PersistentVolume \<Rightarrow> world \<Rightarrow> api_error option \<times> world" where
  "delete_pv e s pv w =
     (case api e (ApiDelete s ''persistentvolumes'' [] (pv_name pv)) w of
        (Some msg, w1) \<Rightarrow> (Some (Failure msg), w1)
      | (None, w1) \<Rightarrow>
          (let c = cluster_of s w1 in
           if \<exists>x \<in> set (cl_pvs c). pv_name x = pv_name pv
           then (None, set_cluster s (c\<lparr>cl_pvs := filter (\<lambda>x. pv_name x \<noteq> pv_name pv) (cl_pvs c)\<rparr>) w1)
           else (Some (not_found ''persistentvolumes'' (pv_name pv)), w1)))"

text \<open>Pods: what the environment shows at the position of the request.\<close>

definition get_pod ::
  "env \<Rightarrow> side \<Rightarrow> string \<Rightarrow> string \<Rightarrow> world \<Rightarrow> (api_error + Pod) \<times> world" where
  "get_pod e s ns name w =
     (case api e (ApiGet s ''pods'' ns name) w of
        (Some msg, w1) \<Rightarrow> (Inl (Failure msg), w1)
      | (None, w1) \<Rightarrow>
          (case e_pod e (length (w_calls w)) of
             None \<Rightarrow> (Inl (not_found ''pods'' name), w1)
           | Some p \<Rightarrow> (Inr p, w1)))"

definition delete_pod ::
  "env \<Rightarrow> side \<Rightarrow> string \<Rightarrow> string \<Rightarrow> world \<Rightarrow> api_error option \<times> world" where
  "delete_pod e s ns name w =
     (case api e (ApiDelete s ''pods'' ns name) w of
        (Some msg, w1) \<Rightarrow> (Some (Failure msg), w1)
      | (None, w1) \<Rightarrow>
          (case e_pod e (length (w_calls w)) of
             None \<Rightarrow> (Some (not_found ''pods'' name), w1)
           | Some p \<Rightarrow> (None, w1)))"

text \<open>
  The local cluster. \<open>r.Get\<close> reads the stored resource. The resource has a status
  subresource: \<open>r.Update\<close> writes everything but the status, \<open>r.Status().Update\<close>
  writes the status alone. A resource that is being deleted is removed when its last
  finalizer is.
\<close>

definition local_get :: "env \<Rightarrow> world \<Rightarrow> (api_error + StatefulSetMigration) \<times> world" where
  "local_get e w =
     (case api e LocalGet w of
        (Some msg, w1) \<Rightarrow> (Inl (Failure msg), w1)
      | (None, w1) \<Rightarrow>
          (case w_migration w1 of
             None \<Rightarrow> (Inl (not_found ''statefulsetmigrations.migration.aqua.io'' []), w1)
           | Some m \<Rightarrow> (Inr m, w1)))"

definition local_update :: "env \<Rightarrow> StatefulSetMigration \<Rightarrow> world \<Rightarrow> api_error option \<times> world" where
  "local_update e m w =
     (case api e LocalUpdate w of
        (Some msg, w1) \<Rightarrow> (Some (Failure msg), w1)
      | (None, w1) \<Rightarrow>
          (case w_migration w1 of
             None \<Rightarrow> (Some (not_found ''statefulsetmigrations.migration.aqua.io'' (mig_name m)), w1)
           | Some stored \<Rightarrow>
               if mig_deletionTimestamp m \<noteq> None \<and> mig_finalizers m = []
               then (None, w1\<lparr>w_migration := None\<rparr>)
               else (None, w1\<lparr>w_migration := Some (m\<lparr>mig_status := mig_status stored\<rparr>)\<rparr>)))"

definition status_update :: "env \<Rightarrow> StatefulSetMigration \<Rightarrow> world \<Rightarrow> api_error option \<times> world" where
  "status_update e m w =
     (case api e LocalStatusUpdate w of
        (Some msg, w1) \<Rightarrow> (Some (Failure msg), w1)
      | (None, w1) \<Rightarrow>
          (case w_migration w1 of
             None \<Rightarrow> (Some (not_found ''statefulsetmigrations.migration.aqua.io'' (mig_name m)), w1)
           | Some stored \<Rightarrow> (None, w1\<lparr>w_migration := Some (stored\<lparr>mig_status := mig_status m\<rparr>)\<rparr>)))"

text \<open>
  The client registry: the client of a remote cluster, from the kubeconfig secret that names
  it, and the discovery request that tests it.
\<close>

definition GetClientFromSecret_op ::
  "env \<Rightarrow> side \<Rightarrow> string \<Rightarrow> string \<Rightarrow> string \<Rightarrow> world \<Rightarrow> (api_error + side) \<times> world" where
  "GetClientFromSecret_op e s secretNamespace secretName secretKey w =
     (case api e (GetClientFromSecret secretNamespace secretName secretKey) w of
        (Some msg, w1) \<Rightarrow> (Inl (Failure msg), w1)
      | (None, w1) \<Rightarrow> (Inr s, w1))"

definition TestConnection :: "env \<Rightarrow> side \<Rightarrow> world \<Rightarrow> api_error option \<times> world" where
  "TestConnection e cc w =
     (case api e (ServerVersion cc) w of
        (Some msg, w1) \<Rightarrow> (Some (Failure (''failed to connect to cluster: '' @ msg)), w1)
      | (None, w1) \<Rightarrow> (None, w1))"

section \<open>Migration controller (internal/controller/reconciler.go)\<close>

definition MigrationFinalizer :: string where
  "MigrationFinalizer = ''migration.aqua.io/finalizer''"

definition DefaultVolumeDetachTimeout :: duration where
  "DefaultVolumeDetachTimeout = 5 * Minute"

definition DefaultPodReadyTimeout :: duration where
  "DefaultPodReadyTimeout = 10 * Minute"

text \<open>
  What \<open>Reconcile\<close> returns: \<open>ctrl.Result{}\<close> is \<open>Result False\<close>,
  \<open>ctrl.Result{Requeue: true}\<close> is \<open>Result True\<close>, and an error is its message. A
  panic ends the reconcile with nothing more written.
\<close>

datatype reconcile_result = Result bool | ReconcileError string | ReconcilePanic string

subsection \<open>Helper functions\<close>

definition getSourceClient :: "env \<Rightarrow> StatefulSetMigration \<Rightarrow> world \<Rightarrow> (api_error + side) \<times> world" where
  "getSourceClient e m w =
     (let secretKey = (if ctx_kubeConfigKey (spec_sourceCluster (mig_spec m)) = [] then ''kubeconfig''
                       else ctx_kubeConfigKey (spec_sourceCluster (mig_spec m)))
      in GetClientFromSecret_op e Source (mig_namespace m)
           (ctx_kubeConfigSecret (spec_sourceCluster (mig_spec m))) secretKey w)"

definition getDestClient :: "env \<Rightarrow> StatefulSetMigration \<Rightarrow> world \<Rightarrow> (api_error + side) \<times> world" where
  "getDestClient e m w =
     (let secretKey = (if ctx_kubeConfigKey (spec_destCluster (mig_spec m)) = [] then ''kubeconfig''
                       else ctx_kubeConfigKey (spec_destCluster (mig_spec m)))
      in GetClientFromSecret_op e Dest (mig_namespace m)
           (ctx_kubeConfigSecret (spec_destCluster (mig_spec m))) secretKey w)"

text \<open>The loop of \<open>setCondition\<close>: replace the condition of that type, or append.\<close>

fun setCondition_loop :: "Condition list \<Rightarrow> Condition \<Rightarrow> Condition list" where
  "setCondition_loop [] condition = [condition]"
| "setCondition_loop (c # cs) condition =
     (if cond_type c = cond_type condition then condition # cs
      else c # setCondition_loop cs condition)"

definition setCondition ::
  "env \<Rightarrow> world \<Rightarrow> StatefulSetMigration \<Rightarrow> string \<Rightarrow> string \<Rightarrow> string \<Rightarrow> string
     \<Rightarrow> StatefulSetMigration" where
  "setCondition e w m condType status reason message =
     (let condition = \<lparr>cond_type = condType, cond_status = status, cond_reason = reason,
                       cond_message = message, cond_lastTransitionTime = Now e w\<rparr>
      in m\<lparr>mig_status := (mig_status m)
             \<lparr>st_conditions := setCondition_loop (st_conditions (mig_status m)) condition\<rparr>\<rparr>)"

definition failMigration ::
  "env \<Rightarrow> StatefulSetMigration \<Rightarrow> string \<Rightarrow> world \<Rightarrow> reconcile_result \<times> world" where
  "failMigration e m reason w =
     (let m1 = m\<lparr>mig_status := (mig_status m)
                  \<lparr>st_phase := PhaseFailed,
                   st_lastError := reason,
                   st_completionTime := Some (Now e w)\<rparr>\<rparr>;
          m2 = setCondition e w m1 ''Failed'' ''True'' ''Failed'' reason
      in case status_update e m2 w of
           (Some err, w1) \<Rightarrow> (ReconcileError (error_v err), w1)
         | (None, w1) \<Rightarrow> (Result False, w1))"

subsection \<open>patchPVsToRetain and orphanStatefulSet\<close>

text \<open>
  The loop over the listed claims. The replica group \<open>sts\<close> is a parameter of the source
  function that its body never reads.
\<close>

fun patchPVsToRetain_loop ::
  "env \<Rightarrow> side \<Rightarrow> PersistentVolumeClaim list \<Rightarrow> string list \<Rightarrow> world
     \<Rightarrow> (api_error + string list) \<times> world" where
  "patchPVsToRetain_loop e cc [] pvNames w = (Inr pvNames, w)"
| "patchPVsToRetain_loop e cc (pvc # rest) pvNames w =
     (if pvc_volumeName pvc = [] then patchPVsToRetain_loop e cc rest pvNames w
      else
        (case get_pv e cc (pvc_volumeName pvc) w of
           (Inl err, w1) \<Rightarrow> patchPVsToRetain_loop e cc rest pvNames w1
         | (Inr pv, w1) \<Rightarrow>
             (if pv_reclaimPolicy pv \<noteq> PersistentVolumeReclaimRetain
              then
                (case update_pv e cc (pv\<lparr>pv_reclaimPolicy := PersistentVolumeReclaimRetain\<rparr>) w1 of
                   (Some err, w2) \<Rightarrow>
                     (Inl (Failure (''failed to patch PV '' @ pv_name pv @ '' to Retain: '' @ error_v err)), w2)
                 | (None, w2) \<Rightarrow> patchPVsToRetain_loop e cc rest (pvNames @ [pv_name pv]) w2)
              else patchPVsToRetain_loop e cc rest (pvNames @ [pv_name pv]) w1)))"

definition patchPVsToRetain ::
  "env \<Rightarrow> side \<Rightarrow> string \<Rightarrow> StatefulSet \<Rightarrow> world \<Rightarrow> (api_error + string list) \<times> world" where
  "patchPVsToRetain e cc namespace sts w =
     (case list_pvcs e cc namespace w of
        (Inl err, w1) \<Rightarrow> (Inl err, w1)
      | (Inr items, w1) \<Rightarrow> patchPVsToRetain_loop e cc items [] w1)"

definition orphanStatefulSet ::
  "env \<Rightarrow> side \<Rightarrow> string \<Rightarrow> string \<Rightarrow> world \<Rightarrow> api_error option \<times> world" where
  "orphanStatefulSet e cc namespace name w =
     (case get_statefulset e cc namespace name w of
        (Inl err, w1) \<Rightarrow> (if IsNotFound err then (None, w1) else (Some err, w1))
      | (Inr sts, w1) \<Rightarrow> delete_statefulset_orphan e cc sts w1)"

subsection \<open>The polling loops\<close>

definition ctx_Err :: "env \<Rightarrow> api_error" where
  "ctx_Err e =
     (if e_ctx_end e = DeadlineExceeded then Failure ''context deadline exceeded''
      else Failure ''context canceled'')"

text \<open>
  \<open>waitForPodDeletion\<close>: the number is the ticks still to be served before the
  two-minute context ends.
\<close>

fun waitForPodDeletion_loop ::
  "env \<Rightarrow> side \<Rightarrow> string \<Rightarrow> string \<Rightarrow> nat \<Rightarrow> world \<Rightarrow> api_error option \<times> world" where
  "waitForPodDeletion_loop e cc namespace name 0 w = (Some (ctx_Err e), w)"
| "waitForPodDeletion_loop e cc namespace name (Suc n) w =
     (case get_pod e cc namespace name w of
        (Inl err, w1) \<Rightarrow> (if IsNotFound err then (None, w1) else (Some err, w1))
      | (Inr pod, w1) \<Rightarrow> waitForPodDeletion_loop e cc namespace name n w1)"

definition waitForPodDeletion ::
  "env \<Rightarrow> side \<Rightarrow> string \<Rightarrow> string \<Rightarrow> world \<Rightarrow> api_error option \<times> world" where
  "waitForPodDeletion e cc namespace name w =
     waitForPodDeletion_loop e cc namespace name (e_deletion_ticks e) w"

definition pod_is_ready :: "Pod \<Rightarrow> bool" where
  "pod_is_ready pod = ((''Ready'', ''True'') \<in> set (pod_conditions pod))"

fun waitForPodReady_loop ::
  "env \<Rightarrow> side \<Rightarrow> string \<Rightarrow> string \<Rightarrow> nat \<Rightarrow> world \<Rightarrow> api_error option \<times> world" where
  "waitForPodReady_loop e cc namespace name 0 w =
     (Some (Failure (''timeout waiting for pod '' @ name @ '' to be ready'')), w)"
| "waitForPodReady_loop e cc namespace name (Suc n) w =
     (case get_pod e cc namespace name w of
        (Inl err, w1) \<Rightarrow> waitForPodReady_loop e cc namespace name n w1
      | (Inr pod, w1) \<Rightarrow>
          (if pod_is_ready pod then (None, w1)
           else waitForPodReady_loop e cc namespace name n w1))"

definition waitForPodReady ::
  "env \<Rightarrow> side \<Rightarrow> string \<Rightarrow> string \<Rightarrow> duration \<Rightarrow> world \<Rightarrow> api_error option \<times> world" where
  "waitForPodReady e cc namespace name timeout w =
     waitForPodReady_loop e cc namespace name (e_ready_ticks e timeout) w"

subsection \<open>createDestinationStatefulSet, scaleDestinationStatefulSet, getVolumeIDFromPV\<close>

definition createDestinationStatefulSet ::
  "env \<Rightarrow> side \<Rightarrow> side \<Rightarrow> StatefulSetMigration \<Rightarrow> world \<Rightarrow> api_error option \<times> world" where
  "createDestinationStatefulSet e sourceCC destCC m w =
     (case get_statefulset e sourceCC (spec_sourceNamespace (mig_spec m))
             (spec_statefulSetName (mig_spec m)) w of
        (Inl err, w1) \<Rightarrow>
          (Some (Failure (''source StatefulSet no longer available for copying spec: '' @ error_v err)), w1)
      | (Inr sourceSTS, w1) \<Rightarrow>
          (let destSTS =
                 \<lparr>sts_name = spec_statefulSetName (mig_spec m),
                  sts_namespace = spec_destNamespace (mig_spec m),
                  sts_uid = [],
                  sts_labels = sts_labels sourceSTS,
                  sts_annotations = Some
                    [(''migration.aqua.io/migrated-from'',
                      spec_sourceNamespace (mig_spec m) @ ''/'' @ spec_statefulSetName (mig_spec m))],
                  sts_replicas = Some 1,
                  sts_serviceName = sts_serviceName sourceSTS,
                  sts_templateNamespace = spec_destNamespace (mig_spec m),
                  sts_specRest = sts_specRest sourceSTS\<rparr>
           in create_statefulset e destCC destSTS w1))"

definition scaleDestinationStatefulSet ::
  "env \<Rightarrow> side \<Rightarrow> StatefulSetMigration \<Rightarrow> go_int32 \<Rightarrow> world \<Rightarrow> api_error option \<times> world" where
  "scaleDestinationStatefulSet e cc m replicas w =
     (case get_statefulset e cc (spec_destNamespace (mig_spec m))
             (spec_statefulSetName (mig_spec m)) w of
        (Inl err, w1) \<Rightarrow> (Some err, w1)
      | (Inr sts, w1) \<Rightarrow> update_statefulset e cc (sts\<lparr>sts_replicas := Some replicas\<rparr>) w1)"

definition getVolumeIDFromPV :: "PersistentVolume \<Rightarrow> string + string" where
  "getVolumeIDFromPV pv =
     (if pv_csi pv \<noteq> None \<and> csi_driver (the (pv_csi pv)) = ''ebs.csi.aws.com''
      then Inr (csi_volumeHandle (the (pv_csi pv)))
      else (case pv_awsElasticBlockStore pv of
              Some ebs \<Rightarrow> Inr (GetVolumeIDFromHandle (ebs_volumeID ebs))
            | None \<Rightarrow> Inl (''PV '' @ pv_name pv @ '' is not an EBS volume'')))"

fun translate_error_message :: "translate_error \<Rightarrow> string" where
  "translate_error_message NilPV = ''source PV cannot be nil''"
| "translate_error_message NilPVC = ''source PVC cannot be nil''"
| "translate_error_message (UnsupportedDriver d) =
     ''unsupported CSI driver: '' @ d @ '' (expected ebs.csi.aws.com)''"
| "translate_error_message (NotABlockVolume n) =
     ''PV '' @ n @ '' does not have an EBS volume source (neither CSI nor AWSElasticBlockStore)''"
| "translate_error_message (ExtractFailed err) =
     ''failed to extract EBS volume ID: '' @ translate_error_message err"

subsection \<open>migratePod\<close>

text \<open>
  \<open>migratePod\<close> returns an error or nil, and on nil it has appended to the migrated pods
  of the resource it was given: the model returns the message or the updated resource.
  \<open>failed_unless tolerated r\<close> is the test \<open>err != nil && !tolerated(err)\<close>. The
  block that deletes the source pod and the block that creates or scales the destination
  group are written on their own; each returns the message of its error, if any.
\<close>

datatype pod_error = PodError string | PodPanic string

definition failed_unless :: "(api_error \<Rightarrow> bool) \<Rightarrow> api_error option \<Rightarrow> bool" where
  "failed_unless tolerated r = (case r of None \<Rightarrow> False | Some err \<Rightarrow> \<not> tolerated err)"

definition migratePod_deleteSourcePod ::
  "env \<Rightarrow> StatefulSetMigration \<Rightarrow> string \<Rightarrow> side \<Rightarrow> world \<Rightarrow> string option \<times> world" where
  "migratePod_deleteSourcePod e m podName sourceClient w =
     (case get_pod e sourceClient (spec_sourceNamespace (mig_spec m)) podName w of
        (Inl err, w1) \<Rightarrow> (None, w1)
      | (Inr pod, w1) \<Rightarrow>
          (case delete_pod e sourceClient (spec_sourceNamespace (mig_spec m)) podName w1 of
             (r, w2) \<Rightarrow>
               if failed_unless IsNotFound r
               then (Some (''failed to delete source pod: '' @ error_v (the r)), w2)
               else
                 (case waitForPodDeletion e sourceClient (spec_sourceNamespace (mig_spec m)) podName w2 of
                    (Some err, w3) \<Rightarrow> (Some (''failed waiting for pod deletion: '' @ error_v err), w3)
                  | (None, w3) \<Rightarrow> (None, w3))))"

definition migratePod_createOrScale ::
  "env \<Rightarrow> StatefulSetMigration \<Rightarrow> go_int \<Rightarrow> side \<Rightarrow> side \<Rightarrow> world \<Rightarrow> string option \<times> world" where
  "migratePod_createOrScale e m index sourceClient destClient w =
     (if index = 0
      then (case createDestinationStatefulSet e sourceClient destClient m w of
              (Some err, w1) \<Rightarrow> (Some (''failed to create destination StatefulSet: '' @ error_v err), w1)
            | (None, w1) \<Rightarrow> (None, w1))
      else (case scaleDestinationStatefulSet e destClient m (scast (index + 1)) w of
              (Some err, w1) \<Rightarrow> (Some (''failed to scale destination StatefulSet: '' @ error_v err), w1)
            | (None, w1) \<Rightarrow> (None, w1)))"

definition migratePod ::
  "env \<Rightarrow> StatefulSetMigration \<Rightarrow> go_int \<Rightarrow> world \<Rightarrow> (pod_error + StatefulSetMigration) \<times> world" where
  "migratePod e m index w =
     (case getSourceClient e m w of
        (Inl err, w1) \<Rightarrow> (Inl (PodError (''failed to get source client: '' @ error_v err)), w1)
      | (Inr sourceClient, w1) \<Rightarrow>
     (case getDestClient e m w1 of
        (Inl err, w2) \<Rightarrow> (Inl (PodError (''failed to get destination client: '' @ error_v err)), w2)
      | (Inr destClient, w2) \<Rightarrow>
     (let podName = spec_statefulSetName (mig_spec m) @ ''-'' @ fmt_d (sint index) in
      case migratePod_deleteSourcePod e m podName sourceClient w2 of
        (Some msg, w3) \<Rightarrow> (Inl (PodError msg), w3)
      | (None, w3) \<Rightarrow>
     (let pvcName = GetPVCNameForStatefulSetPod ''data'' (spec_statefulSetName (mig_spec m)) (sint index) in
      case get_pvc e sourceClient (spec_sourceNamespace (mig_spec m)) pvcName w3 of
        (Inl err, w4) \<Rightarrow>
          (Inl (PodError (''failed to get source PVC '' @ pvcName @ '': '' @ error_v err)), w4)
      | (Inr sourcePVC, w4) \<Rightarrow>
     (case get_pv e sourceClient (pvc_volumeName sourcePVC) w4 of
        (Inl err, w5) \<Rightarrow> (Inl (PodError (''failed to get source PV: '' @ error_v err)), w5)
      | (Inr sourcePV, w5) \<Rightarrow>
     (case getVolumeIDFromPV sourcePV of
        Inl msg \<Rightarrow> (Inl (PodError (''failed to get volume ID: '' @ msg)), w5)
      | Inr volumeID \<Rightarrow>
     (let timeout = (case spec_volumeDetachTimeout (mig_spec m) of
                       None \<Rightarrow> DefaultVolumeDetachTimeout
                     | Some d \<Rightarrow> d) in
      case fst (WaitForVolumeDetach (e_detach e) volumeID
                  \<lparr>wcfg_pollInterval = 5 * Second, wcfg_timeout = timeout, wcfg_onPoll = True\<rparr>) of
        Panicked p \<Rightarrow> (Inl (PodPanic p), w5)
      | Returned (Some err) \<Rightarrow>
          (Inl (PodError (''volume detachment failed: '' @ wait_error_message (e_fmt_v e) err)), w5)
      | Returned None \<Rightarrow>
     (case TranslatePV (Some sourcePV) (Some sourcePVC)
             \<lparr>cfg_destNamespace = spec_destNamespace (mig_spec m),
              cfg_destPVCName = pvcName,
              cfg_storageClassMapping = spec_storageClassMapping (mig_spec m),
              cfg_preserveNodeAffinity = True\<rparr> of
        Inl err \<Rightarrow>
          (Inl (PodError (''failed to translate PV/PVC: '' @ translate_error_message err)), w5)
      | Inr result \<Rightarrow>
     (case create_pv e destClient (res_pv result) w5 of
        (r6, w6) \<Rightarrow>
     if failed_unless IsAlreadyExists r6
     then (Inl (PodError (''failed to create destination PV: '' @ error_v (the r6))), w6)
     else
     (case create_pvc e destClient (res_pvc result) w6 of
        (r7, w7) \<Rightarrow>
     if failed_unless IsAlreadyExists r7
     then (Inl (PodError (''failed to create destination PVC: '' @ error_v (the r7))), w7)
     else
     (case migratePod_createOrScale e m index sourceClient destClient w7 of
        (Some msg, w8) \<Rightarrow> (Inl (PodError msg), w8)
      | (None, w8) \<Rightarrow>
     (let timeout = (case spec_podReadyTimeout (mig_spec m) of
                       None \<Rightarrow> DefaultPodReadyTimeout
                     | Some d \<Rightarrow> d) in
      case waitForPodReady e destClient (spec_destNamespace (mig_spec m)) podName timeout w8 of
        (Some err, w9) \<Rightarrow> (Inl (PodError (''destination pod not ready: '' @ error_v err)), w9)
      | (None, w9) \<Rightarrow>
          (Inr (m\<lparr>mig_status := (mig_status m)
                   \<lparr>st_migratedPods := st_migratedPods (mig_status m) @
                      [\<lparr>mp_index = index,
                        mp_podName = podName,
                        mp_volumeID = volumeID,
                        mp_migratedAt = Now e w9\<rparr>]\<rparr>\<rparr>),
           w9)))))))))))))"

subsection \<open>The phases\<close>

definition reconcilePending :: "env \<Rightarrow> StatefulSetMigration \<Rightarrow> world \<Rightarrow> reconcile_result \<times> world" where
  "reconcilePending e m w =
     (let m1 = m\<lparr>mig_status := (mig_status m)
                  \<lparr>st_phase := PhasePreFlightChecks, st_startTime := Some (Now e w)\<rparr>\<rparr>
      in case status_update e m1 w of
           (Some err, w1) \<Rightarrow> (ReconcileError (error_v err), w1)
         | (None, w1) \<Rightarrow> (Result True, w1))"

text \<open>The end of \<open>reconcilePreFlightChecks\<close>, from \<open>Pre-flight checks passed\<close> on.\<close>

definition reconcilePreFlightChecks_passed ::
  "env \<Rightarrow> StatefulSetMigration \<Rightarrow> world \<Rightarrow> reconcile_result \<times> world" where
  "reconcilePreFlightChecks_passed e m w =
     (let m1 = m\<lparr>mig_status := (mig_status m)\<lparr>st_phase := PhaseFreezingSource\<rparr>\<rparr>;
          m2 = setCondition e w m1 ''PreFlightChecks'' ''True'' ''Passed'' ''All pre-flight checks passed''
      in case status_update e m2 w of
           (Some err, w1) \<Rightarrow> (ReconcileError (error_v err), w1)
         | (None, w1) \<Rightarrow> (Result True, w1))"

definition reconcilePreFlightChecks ::
  "env \<Rightarrow> StatefulSetMigration \<Rightarrow> world \<Rightarrow> reconcile_result \<times> world" where
  "reconcilePreFlightChecks e m w =
     (case getSourceClient e m w of
        (Inl err, w1) \<Rightarrow>
          failMigration e m (''Failed to connect to source cluster: '' @ error_v err) w1
      | (Inr sourceClient, w1) \<Rightarrow>
     (case getDestClient e m w1 of
        (Inl err, w2) \<Rightarrow>
          failMigration e m (''Failed to connect to destination cluster: '' @ error_v err) w2
      | (Inr destClient, w2) \<Rightarrow>
     (case TestConnection e sourceClient w2 of
        (Some err, w3) \<Rightarrow>
          failMigration e m (''Source cluster connectivity check failed: '' @ error_v err) w3
      | (None, w3) \<Rightarrow>
     (case TestConnection e destClient w3 of
        (Some err, w4) \<Rightarrow>
          failMigration e m (''Destination cluster connectivity check failed: '' @ error_v err) w4
      | (None, w4) \<Rightarrow>
     (case get_statefulset e sourceClient (spec_sourceNamespace (mig_spec m))
             (spec_statefulSetName (mig_spec m)) w4 of
        (Inl err, w5) \<Rightarrow>
          failMigration e m (''Source StatefulSet not found: '' @ error_v err) w5
      | (Inr sourceSTS, w5) \<Rightarrow>
     (case sts_replicas sourceSTS of
        None \<Rightarrow> (ReconcilePanic ''invalid memory address or nil pointer dereference'', w5)
      | Some replicas \<Rightarrow>
     (let m1 = m\<lparr>mig_status := (mig_status m)
                  \<lparr>st_sourceStatefulSetUID := sts_uid sourceSTS,
                   st_totalReplicas := scast replicas\<rparr>\<rparr> in
      case get_namespace e destClient (spec_destNamespace (mig_spec m1)) w5 of
        (Inl err, w6) \<Rightarrow>
          (if IsNotFound err
           then failMigration e m1
                  (''Destination namespace '' @ fmt_q (spec_destNamespace (mig_spec m1)) @ '' does not exist'') w6
           else failMigration e m1 (''Failed to check destination namespace: '' @ error_v err) w6)
      | (Inr destNS, w6) \<Rightarrow>
     (case get_statefulset e destClient (spec_destNamespace (mig_spec m1))
             (spec_statefulSetName (mig_spec m1)) w6 of
        (Inr destSTS, w7) \<Rightarrow>
          failMigration e m1
            (''StatefulSet '' @ fmt_q (spec_statefulSetName (mig_spec m1)) @
             '' already exists in destination namespace '' @ fmt_q (spec_destNamespace (mig_spec m1))) w7
      | (Inl err, w7) \<Rightarrow>
     if \<not> IsNotFound err
     then failMigration e m1 (''Failed to check destination StatefulSet: '' @ error_v err) w7
     else if sts_serviceName sourceSTS \<noteq> []
     then
       (case get_service e destClient (spec_destNamespace (mig_spec m1)) (sts_serviceName sourceSTS) w7 of
          (Inl err, w8) \<Rightarrow>
            (if IsNotFound err \<and> \<not> spec_force (mig_spec m1)
             then failMigration e m1
                    (''Headless service '' @ fmt_q (sts_serviceName sourceSTS) @
                     '' not found in destination namespace (required for StatefulSet)'') w8
             else if \<not> IsNotFound err
             then failMigration e m1 (''Failed to check destination service: '' @ error_v err) w8
             else reconcilePreFlightChecks_passed e m1 w8)
        | (Inr destService, w8) \<Rightarrow> reconcilePreFlightChecks_passed e m1 w8)
     else reconcilePreFlightChecks_passed e m1 w7))))))))"

definition reconcileFreezingSource ::
  "env \<Rightarrow> StatefulSetMigration \<Rightarrow> world \<Rightarrow> reconcile_result \<times> world" where
  "reconcileFreezingSource e m w =
     (case getSourceClient e m w of
        (Inl err, w1) \<Rightarrow> failMigration e m (''Failed to get source client: '' @ error_v err) w1
      | (Inr sourceClient, w1) \<Rightarrow>
     (case get_statefulset e sourceClient (spec_sourceNamespace (mig_spec m))
             (spec_statefulSetName (mig_spec m)) w1 of
        (Inl err, w2) \<Rightarrow> failMigration e m (''Failed to get source StatefulSet: '' @ error_v err) w2
      | (Inr sourceSTS, w2) \<Rightarrow>
     (case patchPVsToRetain e sourceClient (spec_sourceNamespace (mig_spec m)) sourceSTS w2 of
        (Inl err, w3) \<Rightarrow> failMigration e m (''Failed to patch PV reclaim policies: '' @ error_v err) w3
      | (Inr preservedPVs, w3) \<Rightarrow>
     (let m1 = m\<lparr>mig_status := (mig_status m)\<lparr>st_preservedPVs := preservedPVs\<rparr>\<rparr> in
      case orphanStatefulSet e sourceClient (spec_sourceNamespace (mig_spec m1))
             (spec_statefulSetName (mig_spec m1)) w3 of
        (Some err, w4) \<Rightarrow> failMigration e m1 (''Failed to orphan StatefulSet: '' @ error_v err) w4
      | (None, w4) \<Rightarrow>
     (let m2 = m1\<lparr>mig_status := (mig_status m1)
                   \<lparr>st_phase := PhaseMigratingPods, st_currentIndex := 0\<rparr>\<rparr>;
          m3 = setCondition e w4 m2 ''SourceFrozen'' ''True'' ''Frozen''
                 ''Source cluster prepared for migration''
      in case status_update e m3 w4 of
           (Some err, w5) \<Rightarrow> (ReconcileError (error_v err), w5)
         | (None, w5) \<Rightarrow> (Result True, w5))))))"

definition reconcileMigratingPods ::
  "env \<Rightarrow> StatefulSetMigration \<Rightarrow> world \<Rightarrow> reconcile_result \<times> world" where
  "reconcileMigratingPods e m w =
     (if sint (st_currentIndex (mig_status m)) \<ge> sint (st_totalReplicas (mig_status m))
      then
        (let m1 = m\<lparr>mig_status := (mig_status m)\<lparr>st_phase := PhaseFinalizing\<rparr>\<rparr>
         in case status_update e m1 w of
              (Some err, w1) \<Rightarrow> (ReconcileError (error_v err), w1)
            | (None, w1) \<Rightarrow> (Result True, w1))
      else
        (let index = st_currentIndex (mig_status m) in
         case migratePod e m index w of
           (Inl (PodPanic p), w1) \<Rightarrow> (ReconcilePanic p, w1)
         | (Inl (PodError msg), w1) \<Rightarrow>
             failMigration e m (''Failed to migrate pod '' @ fmt_d (sint index) @ '': '' @ msg) w1
         | (Inr m1, w1) \<Rightarrow>
             (let m2 = m1\<lparr>mig_status := (mig_status m1)\<lparr>st_currentIndex := index + 1\<rparr>\<rparr>
              in case status_update e m2 w1 of
                   (Some err, w2) \<Rightarrow> (ReconcileError (error_v err), w2)
                 | (None, w2) \<Rightarrow> (Result True, w2))))"

text \<open>
  The two clean-up loops of \<open>reconcileFinalizing\<close>; a failure to read or to delete is
  logged and the loop goes on.
\<close>

fun reconcileFinalizing_pvcs ::
  "env \<Rightarrow> StatefulSetMigration \<Rightarrow> side \<Rightarrow> string list \<Rightarrow> world \<Rightarrow> world" where
  "reconcileFinalizing_pvcs e m sourceClient [] w = w"
| "reconcileFinalizing_pvcs e m sourceClient (pvcName # rest) w =
     (case get_pvc e sourceClient (spec_sourceNamespace (mig_spec m)) pvcName w of
        (Inl err, w1) \<Rightarrow> reconcileFinalizing_pvcs e m sourceClient rest w1
      | (Inr pvc, w1) \<Rightarrow>
          reconcileFinalizing_pvcs e m sourceClient rest (snd (delete_pvc e sourceClient pvc w1)))"

fun reconcileFinalizing_pvs :: "env \<Rightarrow> side \<Rightarrow> string list \<Rightarrow> world \<Rightarrow> world" where
  "reconcileFinalizing_pvs e sourceClient [] w = w"
| "reconcileFinalizing_pvs e sourceClient (pvName # rest) w =
     (case get_pv e sourceClient pvName w of
        (Inl err, w1) \<Rightarrow> reconcileFinalizing_pvs e sourceClient rest w1
      | (Inr pv, w1) \<Rightarrow>
          reconcileFinalizing_pvs e sourceClient rest (snd (delete_pv e sourceClient pv w1)))"

definition reconcileFinalizing ::
  "env \<Rightarrow> StatefulSetMigration \<Rightarrow> world \<Rightarrow> reconcile_result \<times> world" where
  "reconcileFinalizing e m w =
     (case getSourceClient e m w of
        (Inl err, w1) \<Rightarrow> failMigration e m (''Failed to get source client: '' @ error_v err) w1
      | (Inr sourceClient, w1) \<Rightarrow>
     (let pvcNames = map (\<lambda>i. GetPVCNameForStatefulSetPod ''data'' (spec_statefulSetName (mig_spec m)) (int i))
                         [0 ..< nat (sint (st_totalReplicas (mig_status m)))];
          w2 = reconcileFinalizing_pvcs e m sourceClient pvcNames w1;
          w3 = reconcileFinalizing_pvs e sourceClient (st_preservedPVs (mig_status m)) w2;
          m1 = m\<lparr>mig_status := (mig_status m)
                  \<lparr>st_phase := PhaseCompleted, st_completionTime := Some (Now e w3)\<rparr>\<rparr>;
          m2 = setCondition e w3 m1 ''Complete'' ''True'' ''Completed'' ''Migration completed successfully''
      in case status_update e m2 w3 of
           (Some err, w4) \<Rightarrow> (ReconcileError (error_v err), w4)
         | (None, w4) \<Rightarrow> (Result False, w4)))"

subsection \<open>Reconcile\<close>

definition handleDeletion :: "env \<Rightarrow> StatefulSetMigration \<Rightarrow> world \<Rightarrow> reconcile_result \<times> world" where
  "handleDeletion e m w =
     (if MigrationFinalizer \<in> set (mig_finalizers m)
      then
        (let m1 = m\<lparr>mig_finalizers := filter (\<lambda>f. f \<noteq> MigrationFinalizer) (mig_finalizers m)\<rparr>
         in case local_update e m1 w of
              (Some err, w1) \<Rightarrow> (ReconcileError (error_v err), w1)
            | (None, w1) \<Rightarrow> (Result False, w1))
      else (Result False, w))"

definition Reconcile :: "env \<Rightarrow> world \<Rightarrow> reconcile_result \<times> world" where
  "Reconcile e w0 =
     (case local_get e (w0\<lparr>w_calls := []\<rparr>) of
        (Inl err, w) \<Rightarrow>
          (if IsNotFound err then (Result False, w) else (ReconcileError (error_v err), w))
      | (Inr m, w) \<Rightarrow>
          if mig_deletionTimestamp m \<noteq> None then handleDeletion e m w
          else if MigrationFinalizer \<notin> set (mig_finalizers m)
          then
            (case local_update e (m\<lparr>mig_finalizers := mig_finalizers m @ [MigrationFinalizer]\<rparr>) w of
               (Some err, w1) \<Rightarrow> (ReconcileError (error_v err), w1)
             | (None, w1) \<Rightarrow> (Result True, w1))
          else if st_phase (mig_status m) = []
          then
            (case status_update e (m\<lparr>mig_status := (mig_status m)\<lparr>st_phase := PhasePending\<rparr>\<rparr>) w of
               (Some err, w1) \<Rightarrow> (ReconcileError (error_v err), w1)
             | (None, w1) \<Rightarrow> (Result True, w1))
          else if st_phase (mig_status m) = PhasePending then reconcilePending e m w
          else if st_phase (mig_status m) = PhasePreFlightChecks then reconcilePreFlightChecks e m w
          else if st_phase (mig_status m) = PhaseFreezingSource then reconcileFreezingSource e m w
          else if st_phase (mig_status m) = PhaseMigratingPods then reconcileMigratingPods e m w
          else if st_phase (mig_status m) = PhaseFinalizing then reconcileFinalizing e m w
          else (Result False, w))"

subsection \<open>Runs\<close>

text \<open>
  What happens to a migration resource: reconciles, each in its environment, and between
  them whatever the operator and the clusters do, which changes anything but the status
  of the resource (the status is written by the controller only): the remote clusters
  change, the operator edits the spec, or asks for the deletion of the resource.
\<close>

datatype step =
    ReconcileStep env
  | ClustersChange cluster cluster
  | SpecChange StatefulSetMigrationSpec
  | DeleteRequest time

fun do_step :: "step \<Rightarrow> world \<Rightarrow> world" where
  "do_step (ReconcileStep e) w = snd (Reconcile e w)"
| "do_step (ClustersChange src dst) w = w\<lparr>w_source := src, w_dest := dst\<rparr>"
| "do_step (SpecChange sp) w =
     (case w_migration w of
        None \<Rightarrow> w
      | Some m \<Rightarrow> w\<lparr>w_migration := Some (m\<lparr>mig_spec := sp\<rparr>)\<rparr>)"
| "do_step (DeleteRequest t) w =
     (case w_migration w of
        None \<Rightarrow> w
      | Some m \<Rightarrow>
          if mig_finalizers m = [] then w\<lparr>w_migration := None\<rparr>
          else if mig_deletionTimestamp m = None
          then w\<lparr>w_migration := Some (m\<lparr>mig_deletionTimestamp := Some t\<rparr>)\<rparr>
          else w)"

fun run :: "world \<Rightarrow> step list \<Rightarrow> world" where
  "run w [] = w"
| "run w (s # steps) = run (do_step s w) steps"

text \<open>A resource as the operator creates it: no finalizer, and the zero status.\<close>

definition StatefulSetMigrationStatus_zero :: StatefulSetMigrationStatus where
  "StatefulSetMigrationStatus_zero =
     \<lparr>st_phase = [], st_currentIndex = 0, st_totalReplicas = 0, st_migratedPods = [],
      st_conditions = [], st_lastError = [], st_startTime = None, st_completionTime = None,
      st_sourceStatefulSetUID = [], st_preservedPVs = []\<rparr>"

definition created :: "string \<Rightarrow> string \<Rightarrow> StatefulSetMigrationSpec \<Rightarrow> StatefulSetMigration" where
  "created namespace name sp =
     \<lparr>mig_name = name, mig_namespace = namespace, mig_finalizers = [],
      mig_deletionTimestamp = None, mig_spec = sp, mig_status = StatefulSetMigrationStatus_zero\<rparr>"

definition initial_world ::
  "string \<Rightarrow> string \<Rightarrow> StatefulSetMigrationSpec \<Rightarrow> cluster \<Rightarrow> cluster \<Rightarrow> world" where
  "initial_world namespace name sp src dst =
     \<lparr>w_migration = Some (created namespace name sp), w_source = src, w_dest = dst, w_calls = []\<rparr>"

section \<open>Progress of the migration status\<close>

text \<open>
  The relations used to state how one reconcile moves the stored status: a status is well
  formed when the current index counts the migrated entries and entry \<open>k\<close> has index
  \<open>k\<close>; a move keeps the progress, resets it to zero while nothing was migrated, or
  appends the entry of the current index.
\<close>

definition early_phase :: "MigrationPhase \<Rightarrow> bool" where
  "early_phase p = (p = [] \<or> p = PhasePending \<or> p = PhasePreFlightChecks \<or> p = PhaseFreezingSource)"

definition status_inv :: "StatefulSetMigrationStatus \<Rightarrow> bool" where
  "status_inv st =
     (sint (st_currentIndex st) = int (length (st_migratedPods st)) \<and>
      map (\<lambda>p. sint (mp_index p)) (st_migratedPods st) = map int [0 ..< length (st_migratedPods st)] \<and>
      (if early_phase (st_phase st) then st_currentIndex st = 0 else True))"

definition status_move :: "StatefulSetMigrationStatus \<Rightarrow> StatefulSetMigrationStatus \<Rightarrow> bool" where
  "status_move st st' =
     ((st_currentIndex st' = st_currentIndex st \<and> st_migratedPods st' = st_migratedPods st \<and>
       (if early_phase (st_phase st') then early_phase (st_phase st) else True)) \<or>
      (early_phase (st_phase st) \<and> \<not> early_phase (st_phase st') \<and>
       st_currentIndex st' = 0 \<and> st_migratedPods st' = st_migratedPods st) \<or>
      (sint (st_currentIndex st) < sint (st_totalReplicas st) \<and> \<not> early_phase (st_phase st') \<and>
       st_currentIndex st' = st_currentIndex st + 1 \<and>
       (\<exists>p. mp_index p = st_currentIndex st \<and> st_migratedPods st' = st_migratedPods st @ [p])))"

definition writes :: "(StatefulSetMigrationStatus \<Rightarrow> bool) \<Rightarrow> world \<Rightarrow> world \<Rightarrow> bool" where
  "writes P w w' =
     (w_migration w' = w_migration w \<or>
      (\<exists>stored st'. w_migration w = Some stored \<and>
         w_migration w' = Some (stored\<lparr>mig_status := st'\<rparr>) \<and> P st'))"

definition keeps_progress :: "StatefulSetMigrationStatus \<Rightarrow> StatefulSetMigrationStatus \<Rightarrow> bool" where
  "keeps_progress st st' =
     (st_currentIndex st' = st_currentIndex st \<and> st_migratedPods st' = st_migratedPods st)"

definition step_ok :: "world \<Rightarrow> world \<Rightarrow> bool" where
  "step_ok w w' =
     (case w_migration w' of
        None \<Rightarrow> True
      | Some m' \<Rightarrow>
          (case w_migration w of
             None \<Rightarrow> False
           | Some m \<Rightarrow> status_move (mig_status m) (mig_status m')))"

definition world_inv :: "world \<Rightarrow> bool" where
  "world_inv w = (case w_migration w of None \<Rightarrow> True | Some m \<Rightarrow> status_inv (mig_status m))"

definition ahead :: "world \<Rightarrow> world \<Rightarrow> bool" where
  "ahead w w' =
     (case w_migration w' of
        None \<Rightarrow> True
      | Some m' \<Rightarrow>
          (case w_migration w of
             None \<Rightarrow> False
           | Some m \<Rightarrow>
               sint (st_currentIndex (mig_status m)) \<le> sint (st_currentIndex (mig_status m')) \<and>
               prefix (st_migratedPods (mig_status m)) (st_migratedPods (mig_status m'))))"

section \<open>A migration of one replica\<close>

definition web_spec :: StatefulSetMigrationSpec where
  "web_spec =
     \<lparr>spec_migrationID = ''mig-1'',
      spec_sourceCluster = \<lparr>ctx_kubeConfigSecret = ''source-kubeconfig'', ctx_kubeConfigKey = []\<rparr>,
      spec_sourceNamespace = ''prod'',
      spec_statefulSetName = ''web'',
      spec_destCluster = \<lparr>ctx_kubeConfigSecret = ''dest-kubeconfig'', ctx_kubeConfigKey = []\<rparr>,
      spec_destNamespace = ''prod2'',
      spec_force = False,
      spec_storageClassMapping = None,
      spec_volumeDetachTimeout = None,
      spec_podReadyTimeout = None\<rparr>"

definition web_sts :: StatefulSet where
  "web_sts =
     \<lparr>sts_name = ''web'', sts_namespace = ''prod'', sts_uid = ''uid-web'',
      sts_labels = Some [(''app'', ''web'')], sts_annotations = None,
      sts_replicas = Some 1, sts_serviceName = [], sts_templateNamespace = [],
      sts_specRest = ''template''\<rparr>"

definition web_pvc :: "string \<Rightarrow> string \<Rightarrow> PersistentVolumeClaim" where
  "web_pvc name volume =
     PersistentVolumeClaim_zero\<lparr>pvc_name := name, pvc_namespace := ''prod'', pvc_volumeName := volume\<rparr>"

definition web_pv :: "string \<Rightarrow> string \<Rightarrow> string \<Rightarrow> PersistentVolume" where
  "web_pv name policy volumeID =
     PersistentVolume_zero\<lparr>pv_name := name, pv_reclaimPolicy := policy,
       pv_csi := Some (csi_source ''ebs.csi.aws.com'' volumeID)\<rparr>"

definition web_source :: cluster where
  "web_source =
     \<lparr>cl_namespaces = [''prod''], cl_statefulsets = [web_sts], cl_services = [],
      cl_pvcs = [web_pvc ''data-web-0'' ''pv-a''],
      cl_pvs = [web_pv ''pv-a'' ''Delete'' ''vol-a'']\<rparr>"

definition web_dest :: cluster where
  "web_dest =
     \<lparr>cl_namespaces = [''prod2''], cl_statefulsets = [], cl_services = [], cl_pvcs = [], cl_pvs = []\<rparr>"

definition calm :: env where
  "calm =
     \<lparr>e_fail = (\<lambda>n. None), e_now = (\<lambda>n. 0),
      e_pod = (\<lambda>n. if n = 10 then Some \<lparr>pod_conditions = [(''Ready'', ''True'')]\<rparr> else None),
      e_deletion_ticks = 1, e_ready_ticks = (\<lambda>t. 1), e_ctx_end = DeadlineExceeded,
      e_detach = scripted (reported ''vol-a'' ''available'') [] DeadlineExceeded,
      e_fmt_v = (\<lambda>d. fmt_d d @ ''ns'')\<rparr>"

definition web_world :: world where
  "web_world = initial_world ''ops'' ''move-web'' web_spec web_source web_dest"

definition web_before :: "step list" where
  "web_before = replicate 5 (ReconcileStep calm) @
     [ClustersChange (web_source\<lparr>cl_pvs := [web_pv ''pv-a'' ''Retain'' ''vol-a'']\<rparr>) web_dest]"

section \<open>Properties of the volume id extraction\<close>

lemma strings_Split_nonempty: "strings_Split s c \<noteq> []"
  by (induction s) (auto split: list.splits)

lemma strings_Split_no_sep: "c \<notin> set s \<Longrightarrow> strings_Split s c = [s]"
  by (induction s) auto

lemma strings_Split_last_Cons:
  "last (strings_Split (x # xs) c) = (if c \<in> set xs \<or> x = c then last (strings_Split xs c) else x # xs)"
proof (cases "c \<in> set xs")
  case False
  then show ?thesis by (simp add: strings_Split_no_sep)
next
  case True
  then have "length (strings_Split xs c) \<ge> 2"
  proof (induction xs)
    case Nil
    then show ?case by simp
  next
    case (Cons y ys)
    then show ?case
      by (cases "strings_Split ys c") (auto simp: strings_Split_nonempty split: list.splits)
  qed
  then obtain p q ps where "strings_Split xs c = p # q # ps"
    by (cases "strings_Split xs c"; cases "tl (strings_Split xs c)") auto
  with True show ?thesis by simp
qed

lemma strings_Split_last_append:
  "c \<notin> set r \<Longrightarrow> last (strings_Split (pre @ c # r) c) = r"
proof (induction pre)
  case Nil
  then show ?case by (simp add: strings_Split_no_sep)
next
  case (Cons x pre)
  have "last (strings_Split (x # (pre @ c # r)) c) = last (strings_Split (pre @ c # r) c)"
    by (subst strings_Split_last_Cons) simp
  with Cons show ?case by simp
qed

lemma split_at_last_sep:
  "c \<in> set s \<Longrightarrow> \<exists>pre r. s = pre @ c # r \<and> c \<notin> set r"
  using split_list_last by fastforce

lemma GetVolumeIDFromHandle_loop_append:
  "c = CHR ''/'' \<Longrightarrow> c \<notin> set r \<Longrightarrow> k \<le> length r \<Longrightarrow>
   GetVolumeIDFromHandle_loop (pre @ c # r) (length pre + 1 + k) = r"
proof (induction k)
  case 0
  then show ?case by (simp add: nth_append)
next
  case (Suc k)
  then have "(pre @ c # r) ! (length pre + 1 + k) = r ! k"
    by (simp add: nth_append)
  moreover have "r ! k \<noteq> CHR ''/''"
    using Suc.prems by (metis Suc_le_lessD nth_mem)
  ultimately show ?case using Suc by simp
qed

lemma GetVolumeIDFromHandle_loop_no_sep:
  "k \<le> length s \<Longrightarrow> CHR ''/'' \<notin> set s \<Longrightarrow> GetVolumeIDFromHandle_loop s k = s"
proof (induction k)
  case 0
  then show ?case by simp
next
  case (Suc k)
  then have "s ! k \<noteq> CHR ''/''" by (metis Suc_le_lessD nth_mem)
  with Suc show ?case by simp
qed

lemma legacy_parts_last:
  assumes "CHR ''/'' \<in> set v"
  shows "\<exists>pre r. v = pre @ CHR ''/'' # r \<and> CHR ''/'' \<notin> set r \<and>
           strings_Split v (CHR ''/'') ! (length (strings_Split v (CHR ''/'')) - 1) = r \<and>
           GetVolumeIDFromHandle v = r"
proof -
  obtain pre r where v: "v = pre @ CHR ''/'' # r" and r: "CHR ''/'' \<notin> set r"
    using split_at_last_sep [OF assms] by blast
  have "last (strings_Split v (CHR ''/'')) = r"
    unfolding v by (rule strings_Split_last_append [OF r])
  then have 1: "strings_Split v (CHR ''/'') ! (length (strings_Split v (CHR ''/'')) - 1) = r"
    by (simp add: last_conv_nth strings_Split_nonempty)
  have "GetVolumeIDFromHandle_loop (pre @ CHR ''/'' # r) (length pre + 1 + length r) = r"
    by (rule GetVolumeIDFromHandle_loop_append [OF refl r]) simp
  then have 2: "GetVolumeIDFromHandle v = r"
    unfolding v by (simp add: GetVolumeIDFromHandle_def)
  from v r 1 2 show ?thesis by blast
qed

lemma legacy_no_sep:
  "CHR ''/'' \<notin> set v \<Longrightarrow> GetVolumeIDFromHandle v = v"
  by (simp add: GetVolumeIDFromHandle_def GetVolumeIDFromHandle_loop_no_sep)

text \<open>
  C3. The cloud volume id of a source volume: with a CSI source of driver
  \<open>ebs.csi.aws.com\<close> the volume handle as it is; with a CSI source of any other driver the
  failure \<open>UnsupportedDriver\<close>; with the legacy block-store source only, the id after its
  last \<open>/\<close> (the id itself when it has no \<open>/\<close>), which is also what
  \<open>GetVolumeIDFromHandle\<close> returns; with neither source the failure \<open>NotABlockVolume\<close>.
\<close>

theorem extractEBSVolumeID_cases:
  "(\<forall>c. pv_csi pv = Some c \<and> csi_driver c = ''ebs.csi.aws.com'' \<longrightarrow>
        extractEBSVolumeID pv = Inr (csi_volumeHandle c)) \<and>
   (\<forall>c. pv_csi pv = Some c \<and> csi_driver c \<noteq> ''ebs.csi.aws.com'' \<longrightarrow>
        extractEBSVolumeID pv = Inl (UnsupportedDriver (csi_driver c))) \<and>
   (\<forall>e. pv_csi pv = None \<and> pv_awsElasticBlockStore pv = Some e \<longrightarrow>
        (\<exists>r. extractEBSVolumeID pv = Inr r \<and>
             GetVolumeIDFromHandle (ebs_volumeID e) = r \<and>
             CHR ''/'' \<notin> set r \<and>
             (if CHR ''/'' \<in> set (ebs_volumeID e)
              then \<exists>pre. ebs_volumeID e = pre @ CHR ''/'' # r
              else r = ebs_volumeID e))) \<and>
   (pv_csi pv = None \<and> pv_awsElasticBlockStore pv = None \<longrightarrow>
        extractEBSVolumeID pv = Inl (NotABlockVolume (pv_name pv)))"
proof (intro conjI allI impI)
  fix e
  assume a: "pv_csi pv = None \<and> pv_awsElasticBlockStore pv = Some e"
  define v where "v = ebs_volumeID e"
  have ex: "extractEBSVolumeID pv =
      (if CHR ''/'' \<in> set v
       then Inr (strings_Split v (CHR ''/'') ! (length (strings_Split v (CHR ''/'')) - 1))
       else Inr v)"
    using a by (simp add: extractEBSVolumeID_def strings_Contains_def Let_def v_def)
  have "\<exists>r. extractEBSVolumeID pv = Inr r \<and> GetVolumeIDFromHandle v = r \<and>
            CHR ''/'' \<notin> set r \<and>
            (if CHR ''/'' \<in> set v then \<exists>pre. v = pre @ CHR ''/'' # r else r = v)"
  proof (cases "CHR ''/'' \<in> set v")
    case True
    from legacy_parts_last [OF True] obtain pre r where
      v: "v = pre @ CHR ''/'' # r" and r: "CHR ''/'' \<notin> set r" and
      p: "strings_Split v (CHR ''/'') ! (length (strings_Split v (CHR ''/'')) - 1) = r" and
      g: "GetVolumeIDFromHandle v = r"
      by blast
    have 1: "extractEBSVolumeID pv = Inr r"
      using ex True p by simp
    have 2: "\<exists>pre. v = pre @ CHR ''/'' # r"
      using v by (rule exI)
    show ?thesis
      using 1 2 g r True by (intro exI [of _ r] conjI) simp_all
  next
    case False
    with ex legacy_no_sep [OF False] show ?thesis by simp
  qed
  then show "\<exists>r. extractEBSVolumeID pv = Inr r \<and>
            GetVolumeIDFromHandle (ebs_volumeID e) = r \<and> CHR ''/'' \<notin> set r \<and>
            (if CHR ''/'' \<in> set (ebs_volumeID e)
             then \<exists>pre. ebs_volumeID e = pre @ CHR ''/'' # r
             else r = ebs_volumeID e)"
    unfolding v_def .
qed (simp_all add: extractEBSVolumeID_def)

theorem extractEBSVolumeID_cases_witness:
  "extractEBSVolumeID (PersistentVolume_zero\<lparr>pv_csi := Some (csi_source ''ebs.csi.aws.com'' ''vol-abc123'')\<rparr>)
     = Inr ''vol-abc123'' \<and>
   extractEBSVolumeID (PersistentVolume_zero\<lparr>pv_csi := Some (csi_source ''pd.csi.storage.gke.io'' ''projects/test/disks/test'')\<rparr>)
     = Inl (UnsupportedDriver ''pd.csi.storage.gke.io'') \<and>
   extractEBSVolumeID (PersistentVolume_zero\<lparr>pv_awsElasticBlockStore := Some (legacy_source ''aws://us-east-1a/vol-path123'')\<rparr>)
     = Inr ''vol-path123'' \<and>
   extractEBSVolumeID (PersistentVolume_zero\<lparr>pv_awsElasticBlockStore := Some (legacy_source ''vol-direct123'')\<rparr>)
     = Inr ''vol-direct123'' \<and>
   extractEBSVolumeID PersistentVolume_zero = Inl (NotABlockVolume [])"
proof (intro conjI)
  show "extractEBSVolumeID (PersistentVolume_zero\<lparr>pv_csi := Some (csi_source ''ebs.csi.aws.com'' ''vol-abc123'')\<rparr>)
     = Inr ''vol-abc123''"
    using extractEBSVolumeID_cases [of "PersistentVolume_zero\<lparr>pv_csi := Some (csi_source ''ebs.csi.aws.com'' ''vol-abc123'')\<rparr>"]
    by (simp add: csi_source_def)
  show "extractEBSVolumeID (PersistentVolume_zero\<lparr>pv_csi := Some (csi_source ''pd.csi.storage.gke.io'' ''projects/test/disks/test'')\<rparr>)
     = Inl (UnsupportedDriver ''pd.csi.storage.gke.io'')"
    using extractEBSVolumeID_cases [of "PersistentVolume_zero\<lparr>pv_csi := Some (csi_source ''pd.csi.storage.gke.io'' ''projects/test/disks/test'')\<rparr>"]
    by (simp add: csi_source_def)
  show "extractEBSVolumeID (PersistentVolume_zero\<lparr>pv_awsElasticBlockStore := Some (legacy_source ''aws://us-east-1a/vol-path123'')\<rparr>)
     = Inr ''vol-path123''"
    using extractEBSVolumeID_cases [of "PersistentVolume_zero\<lparr>pv_awsElasticBlockStore := Some (legacy_source ''aws://us-east-1a/vol-path123'')\<rparr>"]
    by (simp add: legacy_source_def PersistentVolume_zero_def GetVolumeIDFromHandle_def)
  show "extractEBSVolumeID (PersistentVolume_zero\<lparr>pv_awsElasticBlockStore := Some (legacy_source ''vol-direct123'')\<rparr>)
     = Inr ''vol-direct123''"
    using extractEBSVolumeID_cases [of "PersistentVolume_zero\<lparr>pv_awsElasticBlockStore := Some (legacy_source ''vol-direct123'')\<rparr>"]
    by (simp add: legacy_source_def PersistentVolume_zero_def GetVolumeIDFromHandle_def)
  show "extractEBSVolumeID PersistentVolume_zero = Inl (NotABlockVolume [])"
    using extractEBSVolumeID_cases [of PersistentVolume_zero]
    by (simp add: PersistentVolume_zero_def)
qed

section \<open>Properties of the translation\<close>

lemma extractAvailabilityZone_terms_no_exprs:
  "\<forall>t \<in> set ts. matchExpressions t = [] \<Longrightarrow> extractAvailabilityZone_terms ts = None"
  by (induction ts) auto

lemma extractAvailabilityZone_no_exprs:
  assumes "\<forall>na sel. pv_nodeAffinity pv = Some na \<longrightarrow> required na = Some sel \<longrightarrow>
             (\<forall>t \<in> set (nodeSelectorTerms sel). matchExpressions t = [])"
  shows "extractAvailabilityZone pv = []"
  using assms
  by (auto simp: extractAvailabilityZone_def extractAvailabilityZone_terms_no_exprs
           split: option.splits)

lemma legacy_scenario_id:
  "strings_Split ''aws://eu-west-1b/vol-legacy1'' (CHR ''/'') = [''aws:'', [], ''eu-west-1b'', ''vol-legacy1'']"
  by simp

lemma extractEBSVolumeID_legacy_scenario:
  assumes "pv_csi pv = None" "pv_awsElasticBlockStore pv = Some e"
    "ebs_volumeID e = ''aws://eu-west-1b/vol-legacy1''"
  shows "extractEBSVolumeID pv = Inr ''vol-legacy1''"
  using assms by (simp add: extractEBSVolumeID_def strings_Contains_def)

lemma extractAvailabilityZone_one_expr:
  assumes "pv_nodeAffinity pv = Some \<lparr>required = Some \<lparr>nodeSelectorTerms =
              [\<lparr>matchExpressions = [\<lparr>nsr_key = k, nsr_operator = opr, nsr_values = z # zs\<rparr>],
                matchFields = mf\<rparr>]\<rparr>\<rparr>"
    and "k = ''topology.kubernetes.io/zone'' \<or> k = ''failure-domain.beta.kubernetes.io/zone''"
  shows "extractAvailabilityZone pv = z"
  using assms by (auto simp: extractAvailabilityZone_def)

text \<open>
  C4 (as amended). The availability zone is read from the node-affinity expressions only,
  never from the legacy volume id. For a source volume whose only source is the legacy
  block store with id \<open>aws://eu-west-1b/vol-legacy1\<close>: when its node affinity has no
  expressions, translation yields the id \<open>vol-legacy1\<close>, an empty zone and no
  synthesized affinity (the destination has the source's affinity when it is preserved, none
  otherwise); when its node affinity is one term with one expression, on either zone label,
  with any operator and with \<open>eu-west-1b\<close> as its first value, and affinity is not
  preserved, the zone is \<open>eu-west-1b\<close> and the destination carries the synthesized
  affinity: one term whose one expression is \<open>topology.kubernetes.io/zone\<close>,
  operator \<open>In\<close>, values \<open>[eu-west-1b]\<close>, and no match fields.
\<close>

theorem TranslatePV_legacy_zone:
  "(pv_csi pv = None \<and> pv_awsElasticBlockStore pv = Some e \<and>
    ebs_volumeID e = ''aws://eu-west-1b/vol-legacy1'' \<and>
    (\<forall>na sel. pv_nodeAffinity pv = Some na \<longrightarrow> required na = Some sel \<longrightarrow>
        (\<forall>t \<in> set (nodeSelectorTerms sel). matchExpressions t = []))
    \<longrightarrow> (\<exists>res. TranslatePV (Some pv) (Some pvc) cfg = Inr res \<and>
           res_volumeID res = ''vol-legacy1'' \<and>
           res_availabilityZone res = [] \<and>
           pv_nodeAffinity (res_pv res) =
             (if cfg_preserveNodeAffinity cfg then pv_nodeAffinity pv else None))) \<and>
   (pv_csi pv = None \<and> pv_awsElasticBlockStore pv = Some e \<and>
    ebs_volumeID e = ''aws://eu-west-1b/vol-legacy1'' \<and>
    pv_nodeAffinity pv = Some \<lparr>required = Some \<lparr>nodeSelectorTerms =
        [\<lparr>matchExpressions = [\<lparr>nsr_key = k, nsr_operator = opr, nsr_values = ''eu-west-1b'' # zs\<rparr>],
          matchFields = mf\<rparr>]\<rparr>\<rparr> \<and>
    (k = ''topology.kubernetes.io/zone'' \<or> k = ''failure-domain.beta.kubernetes.io/zone'') \<and>
    \<not> cfg_preserveNodeAffinity cfg
    \<longrightarrow> (\<exists>res. TranslatePV (Some pv) (Some pvc) cfg = Inr res \<and>
           res_volumeID res = ''vol-legacy1'' \<and>
           res_availabilityZone res = ''eu-west-1b'' \<and>
           pv_nodeAffinity (res_pv res) = Some \<lparr>required = Some \<lparr>nodeSelectorTerms =
             [\<lparr>matchExpressions =
                 [\<lparr>nsr_key = ''topology.kubernetes.io/zone'', nsr_operator = ''In'',
                   nsr_values = [''eu-west-1b'']\<rparr>],
               matchFields = []\<rparr>]\<rparr>\<rparr>))"
proof (intro conjI impI)
  assume a: "pv_csi pv = None \<and> pv_awsElasticBlockStore pv = Some e \<and>
    ebs_volumeID e = ''aws://eu-west-1b/vol-legacy1'' \<and>
    (\<forall>na sel. pv_nodeAffinity pv = Some na \<longrightarrow> required na = Some sel \<longrightarrow>
        (\<forall>t \<in> set (nodeSelectorTerms sel). matchExpressions t = []))"
  then have id: "extractEBSVolumeID pv = Inr ''vol-legacy1''"
    by (intro extractEBSVolumeID_legacy_scenario) auto
  from a have az: "extractAvailabilityZone pv = []"
    by (intro extractAvailabilityZone_no_exprs) blast
  show "\<exists>res. TranslatePV (Some pv) (Some pvc) cfg = Inr res \<and>
           res_volumeID res = ''vol-legacy1'' \<and>
           res_availabilityZone res = [] \<and>
           pv_nodeAffinity (res_pv res) =
             (if cfg_preserveNodeAffinity cfg then pv_nodeAffinity pv else None)"
    by (simp add: TranslatePV_def id az Let_def)
next
  assume a: "pv_csi pv = None \<and> pv_awsElasticBlockStore pv = Some e \<and>
    ebs_volumeID e = ''aws://eu-west-1b/vol-legacy1'' \<and>
    pv_nodeAffinity pv = Some \<lparr>required = Some \<lparr>nodeSelectorTerms =
        [\<lparr>matchExpressions = [\<lparr>nsr_key = k, nsr_operator = opr, nsr_values = ''eu-west-1b'' # zs\<rparr>],
          matchFields = mf\<rparr>]\<rparr>\<rparr> \<and>
    (k = ''topology.kubernetes.io/zone'' \<or> k = ''failure-domain.beta.kubernetes.io/zone'') \<and>
    \<not> cfg_preserveNodeAffinity cfg"
  then have id: "extractEBSVolumeID pv = Inr ''vol-legacy1''"
    by (intro extractEBSVolumeID_legacy_scenario) auto
  from a have az: "extractAvailabilityZone pv = ''eu-west-1b''"
    by (intro extractAvailabilityZone_one_expr [where k = k and opr = opr and zs = zs and mf = mf]) auto
  from a have np: "\<not> cfg_preserveNodeAffinity cfg"
    by simp
  show "\<exists>res. TranslatePV (Some pv) (Some pvc) cfg = Inr res \<and>
           res_volumeID res = ''vol-legacy1'' \<and>
           res_availabilityZone res = ''eu-west-1b'' \<and>
           pv_nodeAffinity (res_pv res) = Some \<lparr>required = Some \<lparr>nodeSelectorTerms =
             [\<lparr>matchExpressions =
                 [\<lparr>nsr_key = ''topology.kubernetes.io/zone'', nsr_operator = ''In'',
                   nsr_values = [''eu-west-1b'']\<rparr>],
               matchFields = []\<rparr>]\<rparr>\<rparr>"
    by (simp add: TranslatePV_def id az np Let_def buildNodeAffinityForZone_def NodeSelectorOpIn_def)
qed

theorem TranslatePV_legacy_zone_witness:
  "(\<exists>res. TranslatePV (Some legacy_scenario_pv) (Some PersistentVolumeClaim_zero) legacy_scenario_config = Inr res \<and>
      res_volumeID res = ''vol-legacy1'' \<and> res_availabilityZone res = [] \<and>
      pv_nodeAffinity (res_pv res) = None) \<and>
   (\<exists>res. TranslatePV
        (Some (legacy_scenario_pv\<lparr>pv_nodeAffinity := Some legacy_label_affinity\<rparr>))
        (Some PersistentVolumeClaim_zero)
        (legacy_scenario_config\<lparr>cfg_preserveNodeAffinity := False\<rparr>) = Inr res \<and>
      res_volumeID res = ''vol-legacy1'' \<and> res_availabilityZone res = ''eu-west-1b'' \<and>
      pv_nodeAffinity (res_pv res) = Some \<lparr>required = Some \<lparr>nodeSelectorTerms =
             [\<lparr>matchExpressions =
                 [\<lparr>nsr_key = ''topology.kubernetes.io/zone'', nsr_operator = ''In'',
                   nsr_values = [''eu-west-1b'']\<rparr>],
               matchFields = []\<rparr>]\<rparr>\<rparr>)"
proof (intro conjI)
  show "\<exists>res. TranslatePV (Some legacy_scenario_pv) (Some PersistentVolumeClaim_zero) legacy_scenario_config = Inr res \<and>
      res_volumeID res = ''vol-legacy1'' \<and> res_availabilityZone res = [] \<and>
      pv_nodeAffinity (res_pv res) = None"
    using TranslatePV_legacy_zone [of legacy_scenario_pv "legacy_source ''aws://eu-west-1b/vol-legacy1''"
        PersistentVolumeClaim_zero legacy_scenario_config]
    by (simp add: legacy_scenario_pv_def PersistentVolume_zero_def legacy_source_def
        legacy_scenario_config_def)
  show "\<exists>res. TranslatePV
        (Some (legacy_scenario_pv\<lparr>pv_nodeAffinity := Some legacy_label_affinity\<rparr>))
        (Some PersistentVolumeClaim_zero)
        (legacy_scenario_config\<lparr>cfg_preserveNodeAffinity := False\<rparr>) = Inr res \<and>
      res_volumeID res = ''vol-legacy1'' \<and> res_availabilityZone res = ''eu-west-1b'' \<and>
      pv_nodeAffinity (res_pv res) = Some \<lparr>required = Some \<lparr>nodeSelectorTerms =
             [\<lparr>matchExpressions =
                 [\<lparr>nsr_key = ''topology.kubernetes.io/zone'', nsr_operator = ''In'',
                   nsr_values = [''eu-west-1b'']\<rparr>],
               matchFields = []\<rparr>]\<rparr>\<rparr>"
    using TranslatePV_legacy_zone [where pv = "legacy_scenario_pv\<lparr>pv_nodeAffinity := Some legacy_label_affinity\<rparr>"
        and e = "legacy_source ''aws://eu-west-1b/vol-legacy1''"
        and pvc = PersistentVolumeClaim_zero
        and cfg = "legacy_scenario_config\<lparr>cfg_preserveNodeAffinity := False\<rparr>"
        and k = "''failure-domain.beta.kubernetes.io/zone''" and opr = "''NotIn''"
        and zs = "[''us-east-1a'']" and mf = "[]"]
    by (simp add: legacy_scenario_pv_def PersistentVolume_zero_def legacy_source_def
        legacy_scenario_config_def legacy_label_affinity_def)
qed

text \<open>
  The scenario as the documented expectation states it (zone \<open>eu-west-1b\<close> and a
  synthesized affinity from a volume without affinity expressions) does not hold.
\<close>

theorem TranslatePV_legacy_zone_counterexample:
  "\<not> (\<exists>res. TranslatePV (Some legacy_scenario_pv) (Some PersistentVolumeClaim_zero) legacy_scenario_config = Inr res \<and>
        res_volumeID res = ''vol-legacy1'' \<and>
        res_availabilityZone res = ''eu-west-1b'' \<and>
        pv_nodeAffinity (res_pv res) = Some (buildNodeAffinityForZone ''eu-west-1b''))"
proof -
  have id: "extractEBSVolumeID legacy_scenario_pv = Inr ''vol-legacy1''"
    by (rule extractEBSVolumeID_legacy_scenario [where e = "legacy_source ''aws://eu-west-1b/vol-legacy1''"])
       (simp_all add: legacy_scenario_pv_def PersistentVolume_zero_def legacy_source_def)
  have az: "extractAvailabilityZone legacy_scenario_pv = []"
    by (simp add: extractAvailabilityZone_def legacy_scenario_pv_def PersistentVolume_zero_def)
  show ?thesis
    by (simp add: TranslatePV_def id az Let_def)
qed

section \<open>Properties of the cloud volume waiter\<close>

lemma GetVolumeInfo_reported:
  "GetVolumeInfo (reported v st) v' =
     Inr \<lparr>vi_volumeID = v, vi_state = st, vi_availabilityZone = ''us-east-1a'', vi_size = 10,
          vi_volumeType = ''gp3'', vi_attachments = [], vi_tags = []\<rparr>"
  by (simp add: GetVolumeInfo_def reported_def volume_in_state_def aws_ToString_def aws_ToInt32_def)

lemmas VolumeState_defs = VolumeStateAvailable_def VolumeStateError_def VolumeStateDeleted_def
  VolumeStateDeleting_def VolumeStateInUse_def VolumeStateCreating_def

text \<open>In the loop every request is followed by the callback, when the request succeeds.\<close>

lemma WaitForVolumeDetach_loop_effects:
  "\<exists>n \<le> length ticks.
     snd (WaitForVolumeDetach_loop v cfg ticks e) = concat (map (poll_effects v cfg) (take n ticks))"
proof (induction ticks)
  case Nil
  then show ?case by simp
next
  case (Cons resp rest)
  then obtain n where n: "n \<le> length rest"
    "snd (WaitForVolumeDetach_loop v cfg rest e) = concat (map (poll_effects v cfg) (take n rest))"
    by blast
  show ?case
  proof (cases "GetVolumeInfo resp v")
    case (Inl err)
    then have "snd (WaitForVolumeDetach_loop v cfg (resp # rest) e) = poll_effects v cfg resp"
      by (simp add: poll_effects_def)
    then show ?thesis
      by (intro exI [of _ 1]) simp
  next
    case (Inr info)
    then have pe: "poll_effects v cfg resp =
        DescribeVolumes v # (if wcfg_onPoll cfg then [OnPoll info] else [])"
      by (simp add: poll_effects_def)
    show ?thesis
    proof (cases "vi_state info = VolumeStateAvailable \<or> vi_state info = VolumeStateError \<or>
                  vi_state info = VolumeStateDeleted \<or> vi_state info = VolumeStateDeleting")
      case True
      with Inr have "snd (WaitForVolumeDetach_loop v cfg (resp # rest) e) = poll_effects v cfg resp"
        unfolding pe by (auto simp: Let_def)
      then show ?thesis
        by (intro exI [of _ 1]) simp
    next
      case False
      with Inr have "snd (WaitForVolumeDetach_loop v cfg (resp # rest) e) =
          poll_effects v cfg resp @ snd (WaitForVolumeDetach_loop v cfg rest e)"
        unfolding pe by (simp add: Let_def split: prod.splits)
      with n show ?thesis
        by (intro exI [of _ "Suc n"]) simp
    qed
  qed
qed

text \<open>What a tick's read decides in the loop.\<close>

lemma WaitForVolumeDetach_loop_tick:
  assumes "GetVolumeInfo resp v = Inr info"
  shows "fst (WaitForVolumeDetach_loop v cfg (resp # rest) e) =
           (if vi_state info = VolumeStateAvailable then None
            else if vi_state info = VolumeStateError then Some (ErrorState v)
            else if vi_state info = VolumeStateDeleted \<or> vi_state info = VolumeStateDeleting
            then Some (VolumeGone v)
            else fst (WaitForVolumeDetach_loop v cfg rest e))"
  using assms by (simp add: Let_def split: prod.splits)

lemma WaitForVolumeDetach_loop_deadline:
  "fst (WaitForVolumeDetach_loop v cfg [] DeadlineExceeded) = Some (Timeout v (wcfg_timeout cfg))"
  by simp

lemma Timeout_message_mentions:
  "sublist v (wait_error_message fmt_v (Timeout v t)) \<and>
   sublist (fmt_v t) (wait_error_message fmt_v (Timeout v t))"
proof
  show "sublist v (wait_error_message fmt_v (Timeout v t))"
    unfolding wait_error_message_def wait_error.case
    by (rule sublist_appendI)
  have "sublist (fmt_v t) ((''timeout waiting for volume '' @ v @ '' to detach (waited '') @ fmt_v t @ '')'')"
    by (rule sublist_appendI)
  then show "sublist (fmt_v t) (wait_error_message fmt_v (Timeout v t))"
    unfolding wait_error_message_def wait_error.case by simp
qed

lemma WaitForVolumeDetach_normalise:
  "WaitForVolumeDetach env v cfg =
     WaitForVolumeDetach_armed env v
       (cfg\<lparr>wcfg_pollInterval := (if wcfg_pollInterval cfg = 0 then 5 * Second else wcfg_pollInterval cfg),
            wcfg_timeout := (if wcfg_timeout cfg = 0 then 5 * Minute else wcfg_timeout cfg)\<rparr>)"
proof (cases cfg)
  case (fields i t p)
  show ?thesis
    unfolding fields by (simp add: WaitForVolumeDetach_def Let_def)
qed

lemma WaitForVolumeDetach_armed_effects:
  "take 2 (snd (WaitForVolumeDetach_armed env v cfg)) =
     [WithTimeout (wcfg_timeout cfg), NewTicker (wcfg_pollInterval cfg)]"
  by (simp add: WaitForVolumeDetach_armed_def Let_def split: sum.splits prod.splits)

lemma WaitForVolumeDetach_armed_returns:
  "0 < wcfg_pollInterval cfg \<Longrightarrow> \<exists>r. fst (WaitForVolumeDetach_armed env v cfg) = Returned r"
  by (simp add: WaitForVolumeDetach_armed_def Let_def split: sum.splits prod.splits)

text \<open>
  C10. A zero poll interval and a zero timeout are replaced by 5 seconds and 5 minutes
  before the deadline and the ticker are armed: the wait with the zero configuration is the
  wait with the default one, it arms \<open>WithTimeout (5 * Minute)\<close> and
  \<open>NewTicker (5 * Second)\<close>, that is 300000000000 and 5000000000 nanoseconds, and so
  it returns rather than panics in \<open>NewTicker\<close>; in general, each of the two armed
  values is the configured one unless that is zero. \<open>DefaultWaitConfig\<close> holds the
  same two defaults.
\<close>

theorem WaitForVolumeDetach_defaults:
  "WaitForVolumeDetach env v \<lparr>wcfg_pollInterval = 0, wcfg_timeout = 0, wcfg_onPoll = p\<rparr> =
     WaitForVolumeDetach env v \<lparr>wcfg_pollInterval = 5 * Second, wcfg_timeout = 5 * Minute, wcfg_onPoll = p\<rparr> \<and>
   take 2 (snd (WaitForVolumeDetach env v \<lparr>wcfg_pollInterval = 0, wcfg_timeout = 0, wcfg_onPoll = p\<rparr>)) =
     [WithTimeout (5 * Minute), NewTicker (5 * Second)] \<and>
   (\<exists>r. fst (WaitForVolumeDetach env v \<lparr>wcfg_pollInterval = 0, wcfg_timeout = 0, wcfg_onPoll = p\<rparr>) = Returned r) \<and>
   take 2 (snd (WaitForVolumeDetach env v cfg)) =
     [WithTimeout (if wcfg_timeout cfg = 0 then 5 * Minute else wcfg_timeout cfg),
      NewTicker (if wcfg_pollInterval cfg = 0 then 5 * Second else wcfg_pollInterval cfg)] \<and>
   5 * Second = (5000000000::duration) \<and> 5 * Minute = (300000000000::duration) \<and>
   wcfg_pollInterval DefaultWaitConfig = 5000000000 \<and> wcfg_timeout DefaultWaitConfig = 300000000000"
proof (intro conjI)
  let ?z = "\<lparr>wcfg_pollInterval = 0, wcfg_timeout = 0, wcfg_onPoll = p\<rparr>"
  let ?d = "\<lparr>wcfg_pollInterval = 5 * Second, wcfg_timeout = 5 * Minute, wcfg_onPoll = p\<rparr>"
  have z: "WaitForVolumeDetach env v ?z = WaitForVolumeDetach_armed env v ?d"
    by (subst WaitForVolumeDetach_normalise) simp
  have d: "WaitForVolumeDetach env v ?d = WaitForVolumeDetach_armed env v ?d"
    by (subst WaitForVolumeDetach_normalise) (simp add: Second_def Minute_def)
  show "WaitForVolumeDetach env v ?z = WaitForVolumeDetach env v ?d"
    unfolding z d ..
  show "take 2 (snd (WaitForVolumeDetach env v ?z)) = [WithTimeout (5 * Minute), NewTicker (5 * Second)]"
    unfolding z by (subst WaitForVolumeDetach_armed_effects) simp
  show "\<exists>r. fst (WaitForVolumeDetach env v ?z) = Returned r"
    unfolding z by (rule WaitForVolumeDetach_armed_returns) (simp add: Second_def)
  show "take 2 (snd (WaitForVolumeDetach env v cfg)) =
     [WithTimeout (if wcfg_timeout cfg = 0 then 5 * Minute else wcfg_timeout cfg),
      NewTicker (if wcfg_pollInterval cfg = 0 then 5 * Second else wcfg_pollInterval cfg)]"
    by (subst WaitForVolumeDetach_normalise, subst WaitForVolumeDetach_armed_effects) simp
qed (simp_all add: Second_def Minute_def DefaultWaitConfig_def)

lemma GetVolumeInfo_reported_info:
  "GetVolumeInfo (reported v st) v' = Inr (reported_info v st)"
  by (simp add: GetVolumeInfo_reported reported_info_def)

lemma vi_state_reported_info: "vi_state (reported_info v st) = st"
  by (simp add: reported_info_def)

text \<open>
  C5. The waiter reads the volume once before it waits on the ticker, and returns at once
  when that read shows \<open>available\<close>; but on that path it returns before the callback:
  with \<open>OnPoll\<close> set, the effects are the arming and the one request, and no
  \<open>OnPoll\<close>. When the volume becomes \<open>available\<close> at a tick, the callback is
  invoked after that read too, before the return (in the loop the callback follows every
  successful request, \<open>WaitForVolumeDetach_loop_effects\<close>).
\<close>

theorem WaitForVolumeDetach_initial_available_skips_onPoll:
  "WaitForVolumeDetach (scripted (reported ''vol-a'' ''available'') [] DeadlineExceeded)
      ''vol-a'' (polling_config (5 * Minute)) =
     (Returned None, [WithTimeout 300000000000, NewTicker 5000000000, DescribeVolumes ''vol-a'']) \<and>
   WaitForVolumeDetach (scripted (reported ''vol-a'' ''in-use'') [reported ''vol-a'' ''available'']
        DeadlineExceeded)
      ''vol-a'' (polling_config (5 * Minute)) =
     (Returned None,
      [WithTimeout 300000000000, NewTicker 5000000000,
       DescribeVolumes ''vol-a'', OnPoll (reported_info ''vol-a'' ''in-use''),
       DescribeVolumes ''vol-a'', OnPoll (reported_info ''vol-a'' ''available'')])"
  by (simp add: WaitForVolumeDetach_def WaitForVolumeDetach_armed_def polling_config_def
      scripted_def GetVolumeInfo_reported_info vi_state_reported_info Second_def Minute_def
      VolumeState_defs)

text \<open>
  C6. The terminal states are checked at the ticks only (\<open>WaitForVolumeDetach_loop_tick\<close>),
  not at the immediate read: a volume first read in state \<open>error\<close>,
  \<open>deleting\<close> or \<open>deleted\<close> whose deadline ends before a tick is served yields
  \<open>Timeout\<close>, and one first read in state \<open>error\<close> and then
  \<open>available\<close> yields success; read at a tick, \<open>error\<close> yields
  \<open>ErrorState\<close> and \<open>deleting\<close> yields \<open>VolumeGone\<close>. The
  \<open>Timeout\<close> message names the volume and the armed timeout
  (\<open>Timeout_message_mentions\<close>).
\<close>

theorem WaitForVolumeDetach_initial_error_not_surfaced:
  "fst (WaitForVolumeDetach (scripted (reported ''vol-a'' ''error'') [] DeadlineExceeded)
      ''vol-a'' (polling_config (1 * Second))) = Returned (Some (Timeout ''vol-a'' 1000000000)) \<and>
   fst (WaitForVolumeDetach (scripted (reported ''vol-a'' ''deleting'') [] DeadlineExceeded)
      ''vol-a'' (polling_config (1 * Second))) = Returned (Some (Timeout ''vol-a'' 1000000000)) \<and>
   fst (WaitForVolumeDetach (scripted (reported ''vol-a'' ''deleted'') [] DeadlineExceeded)
      ''vol-a'' (polling_config (1 * Second))) = Returned (Some (Timeout ''vol-a'' 1000000000)) \<and>
   fst (WaitForVolumeDetach (scripted (reported ''vol-a'' ''error'')
           [reported ''vol-a'' ''available''] DeadlineExceeded)
      ''vol-a'' (polling_config (5 * Minute))) = Returned None \<and>
   fst (WaitForVolumeDetach (scripted (reported ''vol-a'' ''in-use'')
           [reported ''vol-a'' ''error''] DeadlineExceeded)
      ''vol-a'' (polling_config (5 * Minute))) = Returned (Some (ErrorState ''vol-a'')) \<and>
   fst (WaitForVolumeDetach (scripted (reported ''vol-a'' ''in-use'')
           [reported ''vol-a'' ''deleting''] DeadlineExceeded)
      ''vol-a'' (polling_config (5 * Minute))) = Returned (Some (VolumeGone ''vol-a''))"
  by (simp add: WaitForVolumeDetach_def WaitForVolumeDetach_armed_def polling_config_def
      scripted_def GetVolumeInfo_reported_info vi_state_reported_info Second_def Minute_def
      VolumeState_defs Let_def)

section \<open>Properties of the migration controller\<close>

subsection \<open>Requests to the clusters leave the migration resource alone\<close>

section \<open>Frame: what the requests to the remote clusters leave alone\<close>

lemma api_migration [simp]: "w_migration (snd (api e c w)) = w_migration w"
  by (simp add: api_def)

lemma set_cluster_migration [simp]: "w_migration (set_cluster s c w) = w_migration w"
  by (cases s) (simp_all add: set_cluster_def)

lemma api_eq: "api e c w = (r, w1) \<Longrightarrow> w_migration w1 = w_migration w"
  by (auto simp: api_def)

named_theorems frame

lemma get_statefulset_frame [frame]:
  "get_statefulset e s ns name w = (r, w1) \<Longrightarrow> w_migration w1 = w_migration w"
  by (auto simp: get_statefulset_def split: prod.splits option.splits dest: api_eq)

lemma get_namespace_frame [frame]:
  "get_namespace e s name w = (r, w1) \<Longrightarrow> w_migration w1 = w_migration w"
  by (auto simp: get_namespace_def split: prod.splits option.splits if_splits dest: api_eq)

lemma get_service_frame [frame]:
  "get_service e s ns name w = (r, w1) \<Longrightarrow> w_migration w1 = w_migration w"
  by (auto simp: get_service_def split: prod.splits option.splits if_splits dest: api_eq)

lemma get_pvc_frame [frame]:
  "get_pvc e s ns name w = (r, w1) \<Longrightarrow> w_migration w1 = w_migration w"
  by (auto simp: get_pvc_def split: prod.splits option.splits dest: api_eq)

lemma list_pvcs_frame [frame]:
  "list_pvcs e s ns w = (r, w1) \<Longrightarrow> w_migration w1 = w_migration w"
  by (auto simp: list_pvcs_def split: prod.splits option.splits dest: api_eq)

lemma get_pv_frame [frame]:
  "get_pv e s name w = (r, w1) \<Longrightarrow> w_migration w1 = w_migration w"
  by (auto simp: get_pv_def split: prod.splits option.splits dest: api_eq)

lemma update_pv_frame [frame]:
  "update_pv e s pv w = (r, w1) \<Longrightarrow> w_migration w1 = w_migration w"
  by (auto simp: update_pv_def Let_def split: prod.splits option.splits if_splits dest: api_eq)

lemma update_statefulset_frame [frame]:
  "update_statefulset e s sts w = (r, w1) \<Longrightarrow> w_migration w1 = w_migration w"
  by (auto simp: update_statefulset_def Let_def split: prod.splits option.splits if_splits dest: api_eq)

lemma create_pv_frame [frame]:
  "create_pv e s pv w = (r, w1) \<Longrightarrow> w_migration w1 = w_migration w"
  by (auto simp: create_pv_def Let_def split: prod.splits option.splits if_splits dest: api_eq)

lemma create_pvc_frame [frame]:
  "create_pvc e s pvc w = (r, w1) \<Longrightarrow> w_migration w1 = w_migration w"
  by (auto simp: create_pvc_def Let_def split: prod.splits option.splits if_splits dest: api_eq)

lemma create_statefulset_frame [frame]:
  "create_statefulset e s sts w = (r, w1) \<Longrightarrow> w_migration w1 = w_migration w"
  by (auto simp: create_statefulset_def Let_def split: prod.splits option.splits if_splits dest: api_eq)

lemma delete_statefulset_orphan_frame [frame]:
  "delete_statefulset_orphan e s sts w = (r, w1) \<Longrightarrow> w_migration w1 = w_migration w"
  by (auto simp: delete_statefulset_orphan_def Let_def split: prod.splits option.splits if_splits dest: api_eq)

lemma delete_pvc_frame [frame]:
  "delete_pvc e s pvc w = (r, w1) \<Longrightarrow> w_migration w1 = w_migration w"
  by (auto simp: delete_pvc_def Let_def split: prod.splits option.splits if_splits dest: api_eq)

lemma delete_pv_frame [frame]:
  "delete_pv e s pv w = (r, w1) \<Longrightarrow> w_migration w1 = w_migration w"
  by (auto simp: delete_pv_def Let_def split: prod.splits option.splits if_splits dest: api_eq)

lemma get_pod_frame [frame]:
  "get_pod e s ns name w = (r, w1) \<Longrightarrow> w_migration w1 = w_migration w"
  by (auto simp: get_pod_def split: prod.splits option.splits dest: api_eq)

lemma delete_pod_frame [frame]:
  "delete_pod e s ns name w = (r, w1) \<Longrightarrow> w_migration w1 = w_migration w"
  by (auto simp: delete_pod_def split: prod.splits option.splits dest: api_eq)

lemma GetClientFromSecret_op_frame [frame]:
  "GetClientFromSecret_op e s a b c w = (r, w1) \<Longrightarrow> w_migration w1 = w_migration w"
  by (auto simp: GetClientFromSecret_op_def split: prod.splits option.splits dest: api_eq)

lemma TestConnection_frame [frame]:
  "TestConnection e s w = (r, w1) \<Longrightarrow> w_migration w1 = w_migration w"
  by (auto simp: TestConnection_def split: prod.splits option.splits dest: api_eq)

lemma getSourceClient_frame [frame]:
  "getSourceClient e m w = (r, w1) \<Longrightarrow> w_migration w1 = w_migration w"
  by (auto simp: getSourceClient_def Let_def dest: GetClientFromSecret_op_frame)

lemma getDestClient_frame [frame]:
  "getDestClient e m w = (r, w1) \<Longrightarrow> w_migration w1 = w_migration w"
  by (auto simp: getDestClient_def Let_def dest: GetClientFromSecret_op_frame)

lemma patchPVsToRetain_loop_frame [frame]:
  "patchPVsToRetain_loop e cc items acc w = (r, w1) \<Longrightarrow> w_migration w1 = w_migration w"
proof (induction items arbitrary: acc w)
  case Nil
  then show ?case by simp
next
  case (Cons pvc rest)
  then show ?case
    by (auto split: if_splits prod.splits sum.splits option.splits
             dest!: get_pv_frame update_pv_frame)
qed

lemma patchPVsToRetain_frame [frame]:
  "patchPVsToRetain e cc ns sts w = (r, w1) \<Longrightarrow> w_migration w1 = w_migration w"
  by (auto simp: patchPVsToRetain_def split: prod.splits sum.splits
           dest!: list_pvcs_frame patchPVsToRetain_loop_frame)

lemma orphanStatefulSet_frame [frame]:
  "orphanStatefulSet e cc ns name w = (r, w1) \<Longrightarrow> w_migration w1 = w_migration w"
  by (auto simp: orphanStatefulSet_def split: prod.splits sum.splits if_splits
           dest!: get_statefulset_frame delete_statefulset_orphan_frame)

lemma waitForPodDeletion_loop_frame [frame]:
  "waitForPodDeletion_loop e cc ns name n w = (r, w1) \<Longrightarrow> w_migration w1 = w_migration w"
proof (induction n arbitrary: w)
  case 0
  then show ?case by simp
next
  case (Suc n)
  then show ?case
    by (auto split: if_splits prod.splits sum.splits dest!: get_pod_frame)
qed

lemma waitForPodReady_loop_frame [frame]:
  "waitForPodReady_loop e cc ns name n w = (r, w1) \<Longrightarrow> w_migration w1 = w_migration w"
proof (induction n arbitrary: w)
  case 0
  then show ?case by simp
next
  case (Suc n)
  then show ?case
    by (auto split: if_splits prod.splits sum.splits dest!: get_pod_frame)
qed

lemma createDestinationStatefulSet_frame [frame]:
  "createDestinationStatefulSet e a b m w = (r, w1) \<Longrightarrow> w_migration w1 = w_migration w"
  by (auto simp: createDestinationStatefulSet_def Let_def split: prod.splits sum.splits
           dest!: get_statefulset_frame create_statefulset_frame)

lemma scaleDestinationStatefulSet_frame [frame]:
  "scaleDestinationStatefulSet e a m n w = (r, w1) \<Longrightarrow> w_migration w1 = w_migration w"
  by (auto simp: scaleDestinationStatefulSet_def split: prod.splits sum.splits
           dest!: get_statefulset_frame update_statefulset_frame)

lemma migratePod_deleteSourcePod_frame [frame]:
  "migratePod_deleteSourcePod e m p s w = (r, w1) \<Longrightarrow> w_migration w1 = w_migration w"
  by (auto simp: migratePod_deleteSourcePod_def waitForPodDeletion_def
           split: prod.splits sum.splits if_splits option.splits
           dest!: get_pod_frame delete_pod_frame waitForPodDeletion_loop_frame)

lemma migratePod_createOrScale_frame [frame]:
  "migratePod_createOrScale e m i a b w = (r, w1) \<Longrightarrow> w_migration w1 = w_migration w"
  by (auto simp: migratePod_createOrScale_def
           split: prod.splits if_splits option.splits
           dest!: createDestinationStatefulSet_frame scaleDestinationStatefulSet_frame)

lemma reconcileFinalizing_pvcs_frame [simp]:
  "w_migration (reconcileFinalizing_pvcs e m s names w) = w_migration w"
proof (induction names arbitrary: w)
  case Nil
  then show ?case by simp
next
  case (Cons n names)
  show ?case
  proof (cases "get_pvc e s (spec_sourceNamespace (mig_spec m)) n w")
    case (Pair r w1)
    then have 1: "w_migration w1 = w_migration w" by (rule get_pvc_frame)
    show ?thesis
    proof (cases r)
      case (Inl err)
      with Pair 1 Cons show ?thesis by simp
    next
      case (Inr pvc)
      have "w_migration (snd (delete_pvc e s pvc w1)) = w_migration w1"
        by (cases "delete_pvc e s pvc w1") (auto dest: delete_pvc_frame)
      with Pair Inr 1 Cons show ?thesis by simp
    qed
  qed
qed

lemma reconcileFinalizing_pvs_frame [simp]:
  "w_migration (reconcileFinalizing_pvs e s names w) = w_migration w"
proof (induction names arbitrary: w)
  case Nil
  then show ?case by simp
next
  case (Cons n names)
  show ?case
  proof (cases "get_pv e s n w")
    case (Pair r w1)
    then have 1: "w_migration w1 = w_migration w" by (rule get_pv_frame)
    show ?thesis
    proof (cases r)
      case (Inl err)
      with Pair 1 Cons show ?thesis by simp
    next
      case (Inr pv)
      have "w_migration (snd (delete_pv e s pv w1)) = w_migration w1"
        by (cases "delete_pv e s pv w1") (auto dest: delete_pv_frame)
      with Pair Inr 1 Cons show ?thesis by simp
    qed
  qed
qed

lemma sint_succ:
  fixes x y :: go_int
  assumes "sint x < sint y"
  shows "sint (x + 1) = sint x + 1"
proof -
  have "sint y < 2 ^ 63" using sint_lt [of y] by simp
  moreover have "- (2 ^ 63) \<le> sint x" using sint_ge [of x] by simp
  ultimately have "- (2 ^ 63) \<le> sint x + 1 \<and> sint x + 1 < 2 ^ 63"
    using assms by linarith
  then show ?thesis
    by (simp add: sint_word_ariths signed_take_bit_int_eq_self)
qed

lemma phases_distinct [simp]:
  "early_phase []" "early_phase PhasePending" "early_phase PhasePreFlightChecks"
  "early_phase PhaseFreezingSource" "\<not> early_phase PhaseMigratingPods"
  "\<not> early_phase PhaseFinalizing" "\<not> early_phase PhaseCompleted" "\<not> early_phase PhaseFailed"
  by (simp_all add: early_phase_def PhasePending_def PhasePreFlightChecks_def
      PhaseFreezingSource_def PhaseMigratingPods_def PhaseFinalizing_def PhaseCompleted_def
      PhaseFailed_def)

lemma status_move_inv:
  assumes "status_inv st" "status_move st st'"
  shows "status_inv st' \<and> sint (st_currentIndex st) \<le> sint (st_currentIndex st') \<and>
         prefix (st_migratedPods st) (st_migratedPods st')"
  using assms(2) unfolding status_move_def
proof (elim disjE conjE exE)
  assume "st_currentIndex st' = st_currentIndex st" "st_migratedPods st' = st_migratedPods st"
    "if early_phase (st_phase st') then early_phase (st_phase st) else True"
  with assms(1) show ?thesis
    by (auto simp: status_inv_def split: if_splits)
next
  assume "early_phase (st_phase st)" "\<not> early_phase (st_phase st')"
    "st_currentIndex st' = 0" "st_migratedPods st' = st_migratedPods st"
  with assms(1) show ?thesis
    by (auto simp: status_inv_def split: if_splits)
next
  fix p
  assume a: "sint (st_currentIndex st) < sint (st_totalReplicas st)" "\<not> early_phase (st_phase st')"
    "st_currentIndex st' = st_currentIndex st + 1" "mp_index p = st_currentIndex st"
    "st_migratedPods st' = st_migratedPods st @ [p]"
  have s: "sint (st_currentIndex st + 1) = sint (st_currentIndex st) + 1"
    using a(1) by (rule sint_succ)
  from assms(1) have i: "sint (st_currentIndex st) = int (length (st_migratedPods st))"
    and d: "map (\<lambda>p. sint (mp_index p)) (st_migratedPods st) = map int [0 ..< length (st_migratedPods st)]"
    by (simp_all add: status_inv_def)
  show ?thesis
    using a s i d by (simp add: status_inv_def)
qed

lemma writes_frame: "w_migration w1 = w_migration w \<Longrightarrow> writes P w1 w' \<Longrightarrow> writes P w w'"
  by (simp add: writes_def)

lemma writes_mono: "writes P w w' \<Longrightarrow> (\<And>st. P st \<Longrightarrow> Q st) \<Longrightarrow> writes Q w w'"
  by (auto simp: writes_def)

lemma writes_refl [simp]: "writes P w w"
  by (simp add: writes_def)

lemma writes_same: "w_migration w' = w_migration w \<Longrightarrow> writes P w w'"
  by (simp add: writes_def)

lemma status_update_writes:
  "status_update e m w = (r, w') \<Longrightarrow> P (mig_status m) \<Longrightarrow> writes P w w'"
  by (auto simp: status_update_def writes_def split: prod.splits option.splits dest!: api_eq)

lemma setCondition_fields [simp]:
  "st_currentIndex (mig_status (setCondition e w m a b c d)) = st_currentIndex (mig_status m)"
  "st_migratedPods (mig_status (setCondition e w m a b c d)) = st_migratedPods (mig_status m)"
  "st_phase (mig_status (setCondition e w m a b c d)) = st_phase (mig_status m)"
  "st_totalReplicas (mig_status (setCondition e w m a b c d)) = st_totalReplicas (mig_status m)"
  "st_preservedPVs (mig_status (setCondition e w m a b c d)) = st_preservedPVs (mig_status m)"
  "st_lastError (mig_status (setCondition e w m a b c d)) = st_lastError (mig_status m)"
  "st_sourceStatefulSetUID (mig_status (setCondition e w m a b c d)) = st_sourceStatefulSetUID (mig_status m)"
  by (simp_all add: setCondition_def Let_def)

lemma failMigration_writes:
  assumes "failMigration e m reason w = (r, w')"
  shows "writes (\<lambda>st'. keeps_progress (mig_status m) st' \<and> st_phase st' = PhaseFailed) w w'"
proof -
  obtain m2 where m2: "failMigration e m reason w =
      (case status_update e m2 w of
         (Some err, w1) \<Rightarrow> (ReconcileError (error_v err), w1)
       | (None, w1) \<Rightarrow> (Result False, w1))"
    and f: "keeps_progress (mig_status m) (mig_status m2)" "st_phase (mig_status m2) = PhaseFailed"
    by (simp add: failMigration_def Let_def keeps_progress_def)
  obtain r1 w1 where u: "status_update e m2 w = (r1, w1)" by (cases "status_update e m2 w")
  with m2 assms have "w' = w1" by (auto split: option.splits)
  with u f show ?thesis by (auto intro: status_update_writes)
qed

lemma failMigration_move:
  assumes "failMigration e m reason w1 = (r, w')" "w_migration w1 = w_migration w"
    "keeps_progress st (mig_status m)"
  shows "writes (status_move st) w w'"
proof -
  have "writes (\<lambda>st'. keeps_progress (mig_status m) st' \<and> st_phase st' = PhaseFailed) w1 w'"
    using assms(1) by (rule failMigration_writes)
  then have "writes (status_move st) w1 w'"
  proof (rule writes_mono)
    fix st'
    assume "keeps_progress (mig_status m) st' \<and> st_phase st' = PhaseFailed"
    with assms(3) show "status_move st st'"
      by (simp add: status_move_def keeps_progress_def)
  qed
  with assms(2) show ?thesis by (rule writes_frame)
qed

lemma keeps_progress_refl [simp]: "keeps_progress st st"
  by (simp add: keeps_progress_def)

lemma reconcilePending_move:
  assumes "reconcilePending e m w = (r, w')" "early_phase (st_phase (mig_status m))"
  shows "writes (status_move (mig_status m)) w w'"
proof -
  let ?m1 = "m\<lparr>mig_status := (mig_status m)
                  \<lparr>st_phase := PhasePreFlightChecks, st_startTime := Some (Now e w)\<rparr>\<rparr>"
  obtain r1 w1 where u: "status_update e ?m1 w = (r1, w1)" by (cases "status_update e ?m1 w")
  with assms(1) have "w' = w1" by (auto simp: reconcilePending_def Let_def split: option.splits)
  moreover have "status_move (mig_status m) (mig_status ?m1)"
    using assms(2) by (simp add: status_move_def)
  ultimately show ?thesis using u by (auto intro: status_update_writes)
qed

lemma failMigration_leaf:
  assumes "failMigration e m reason w1 = (r, w')"
  shows "writes (\<lambda>st'. keeps_progress (mig_status m) st' \<and> \<not> early_phase (st_phase st')) w1 w'"
  using failMigration_writes [OF assms] by (rule writes_mono) simp

lemma reconcilePreFlightChecks_passed_leaf:
  assumes "reconcilePreFlightChecks_passed e m w1 = (r, w')"
  shows "writes (keeps_progress (mig_status m)) w1 w'"
proof -
  let ?m1 = "m\<lparr>mig_status := (mig_status m)\<lparr>st_phase := PhaseFreezingSource\<rparr>\<rparr>"
  let ?m2 = "setCondition e w1 ?m1 ''PreFlightChecks'' ''True'' ''Passed'' ''All pre-flight checks passed''"
  obtain r1 w2 where u: "status_update e ?m2 w1 = (r1, w2)" by (cases "status_update e ?m2 w1")
  with assms(1) have "w' = w2"
    by (auto simp: reconcilePreFlightChecks_passed_def Let_def split: option.splits)
  moreover have "keeps_progress (mig_status m) (mig_status ?m2)"
    by (simp add: keeps_progress_def)
  ultimately show ?thesis using u by (auto intro: status_update_writes)
qed

lemma writes_move_early:
  assumes "writes (keeps_progress st1) w1 w'" "w_migration w1 = w_migration w"
    "keeps_progress st st1" "early_phase (st_phase st)"
  shows "writes (status_move st) w w'"
  using assms by (auto simp: writes_def status_move_def keeps_progress_def)

lemma writes_move_late:
  assumes "writes (\<lambda>st'. keeps_progress st1 st' \<and> \<not> early_phase (st_phase st')) w1 w'"
    "w_migration w1 = w_migration w" "keeps_progress st st1"
  shows "writes (status_move st) w w'"
  using assms by (auto simp: writes_def status_move_def keeps_progress_def)

lemma reconcilePreFlightChecks_move:
  assumes "reconcilePreFlightChecks e m w = (r, w')" "early_phase (st_phase (mig_status m))"
  shows "writes (status_move (mig_status m)) w w'"
  using assms
  by (auto simp: reconcilePreFlightChecks_def Let_def keeps_progress_def
           split: prod.splits sum.splits option.splits if_splits
           dest!: getSourceClient_frame getDestClient_frame TestConnection_frame
                  get_statefulset_frame get_namespace_frame get_service_frame
                  failMigration_leaf reconcilePreFlightChecks_passed_leaf
           elim: writes_move_early writes_move_late
           intro: writes_same)

lemma status_update_leaf:
  "status_update e m w1 = (r, w') \<Longrightarrow> writes (\<lambda>st'. st' = mig_status m) w1 w'"
  by (rule status_update_writes) simp_all

lemma writes_move_to:
  assumes "writes (\<lambda>st'. st' = st1) w1 w'" "w_migration w1 = w_migration w"
    "status_move st st1"
  shows "writes (status_move st) w w'"
  using assms by (auto simp: writes_def)

lemma status_move_freeze:
  "early_phase (st_phase st) \<Longrightarrow> \<not> early_phase (st_phase st1) \<Longrightarrow>
   st_currentIndex st1 = 0 \<Longrightarrow> st_migratedPods st1 = st_migratedPods st \<Longrightarrow> status_move st st1"
  by (simp add: status_move_def)

lemma status_move_keep:
  "keeps_progress st st1 \<Longrightarrow> (early_phase (st_phase st1) \<Longrightarrow> early_phase (st_phase st)) \<Longrightarrow>
   status_move st st1"
  by (auto simp: status_move_def keeps_progress_def)

lemma reconcileFreezingSource_move:
  assumes "reconcileFreezingSource e m w = (r, w')" "early_phase (st_phase (mig_status m))"
  shows "writes (status_move (mig_status m)) w w'"
  using assms
  by (auto simp: reconcileFreezingSource_def Let_def keeps_progress_def
           split: prod.splits sum.splits option.splits if_splits
           dest!: getSourceClient_frame get_statefulset_frame patchPVsToRetain_frame
                  orphanStatefulSet_frame failMigration_leaf status_update_leaf
           elim: writes_move_late writes_move_to
           intro!: status_move_freeze)

lemma migratePod_appends:
  assumes "migratePod e m index w = (Inr m1, w1)"
  shows "w_migration w1 = w_migration w \<and>
         mp_index (last (st_migratedPods (mig_status m1))) = index \<and>
         st_migratedPods (mig_status m1) =
           st_migratedPods (mig_status m) @ [last (st_migratedPods (mig_status m1))] \<and>
         mig_status m1 = (mig_status m)\<lparr>st_migratedPods := st_migratedPods (mig_status m1)\<rparr>"
  using assms
  by (auto simp: migratePod_def Let_def waitForPodReady_def
           split: prod.splits sum.splits option.splits if_splits wait_result.splits
           dest!: getSourceClient_frame getDestClient_frame migratePod_deleteSourcePod_frame
                  get_pvc_frame get_pv_frame create_pv_frame create_pvc_frame
                  migratePod_createOrScale_frame waitForPodReady_loop_frame)

lemma migratePod_fails:
  assumes "migratePod e m index w = (Inl err, w1)"
  shows "w_migration w1 = w_migration w"
  using assms
  by (auto simp: migratePod_def Let_def waitForPodReady_def
           split: prod.splits sum.splits option.splits if_splits wait_result.splits
           dest!: getSourceClient_frame getDestClient_frame migratePod_deleteSourcePod_frame
                  get_pvc_frame get_pv_frame create_pv_frame create_pvc_frame
                  migratePod_createOrScale_frame waitForPodReady_loop_frame)

lemma status_move_migrate:
  assumes "sint (st_currentIndex st) < sint (st_totalReplicas st)" "\<not> early_phase (st_phase st1)"
    "st_currentIndex st1 = st_currentIndex st + 1" "mp_index p = st_currentIndex st"
    "st_migratedPods st1 = st_migratedPods st @ [p]"
  shows "status_move st st1"
  using assms by (auto simp: status_move_def)

lemma reconcileMigratingPods_move:
  assumes "reconcileMigratingPods e m w = (r, w')" "\<not> early_phase (st_phase (mig_status m))"
  shows "writes (status_move (mig_status m)) w w'"
proof (cases "sint (st_currentIndex (mig_status m)) \<ge> sint (st_totalReplicas (mig_status m))")
  case True
  let ?m1 = "m\<lparr>mig_status := (mig_status m)\<lparr>st_phase := PhaseFinalizing\<rparr>\<rparr>"
  obtain r1 w1 where u: "status_update e ?m1 w = (r1, w1)" by (cases "status_update e ?m1 w")
  with assms(1) True have "w' = w1"
    by (auto simp: reconcileMigratingPods_def Let_def split: option.splits)
  moreover have "status_move (mig_status m) (mig_status ?m1)"
    by (simp add: status_move_def)
  ultimately show ?thesis using u by (auto intro: status_update_writes)
next
  case False
  let ?i = "st_currentIndex (mig_status m)"
  obtain x w1 where mp: "migratePod e m ?i w = (x, w1)" by (cases "migratePod e m ?i w")
  show ?thesis
  proof (cases x)
    case (Inl err)
    with mp have f: "w_migration w1 = w_migration w" by (auto dest: migratePod_fails)
    show ?thesis
    proof (cases err)
      case (PodPanic p)
      with assms(1) False mp Inl have "w' = w1"
        by (simp add: reconcileMigratingPods_def Let_def)
      with f show ?thesis by (simp add: writes_same)
    next
      case (PodError msg)
      with assms(1) False mp Inl have
        "failMigration e m (''Failed to migrate pod '' @ fmt_d (sint ?i) @ '': '' @ msg) w1 = (r, w')"
        by (simp add: reconcileMigratingPods_def Let_def)
      then show ?thesis using f by (rule failMigration_move) simp
    qed
  next
    case (Inr m1)
    with mp have a: "w_migration w1 = w_migration w"
      "mp_index (last (st_migratedPods (mig_status m1))) = ?i"
      "st_migratedPods (mig_status m1) =
         st_migratedPods (mig_status m) @ [last (st_migratedPods (mig_status m1))]"
      "mig_status m1 = (mig_status m)\<lparr>st_migratedPods := st_migratedPods (mig_status m1)\<rparr>"
      using migratePod_appends [of e m ?i w m1 w1] by simp_all
    let ?m2 = "m1\<lparr>mig_status := (mig_status m1)\<lparr>st_currentIndex := ?i + 1\<rparr>\<rparr>"
    obtain r2 w2 where u: "status_update e ?m2 w1 = (r2, w2)" by (cases "status_update e ?m2 w1")
    with assms(1) False mp Inr have "w' = w2"
      by (auto simp: reconcileMigratingPods_def Let_def split: option.splits)
    moreover have "st_phase (mig_status m1) = st_phase (mig_status m)"
      by (subst a(4)) simp
    then have "status_move (mig_status m) (mig_status ?m2)"
      using False assms(2) a(2,3)
      by (intro status_move_migrate [where p = "last (st_migratedPods (mig_status m1))"]) simp_all
    ultimately have "writes (status_move (mig_status m)) w1 w'"
      using u by (auto intro: status_update_writes)
    with a(1) show ?thesis by (rule writes_frame)
  qed
qed

lemma reconcileFinalizing_move:
  assumes "reconcileFinalizing e m w = (r, w')"
  shows "writes (status_move (mig_status m)) w w'"
proof -
  obtain x w1 where g: "getSourceClient e m w = (x, w1)" by (cases "getSourceClient e m w")
  then have f1: "w_migration w1 = w_migration w" by (rule getSourceClient_frame)
  show ?thesis
  proof (cases x)
    case (Inl err)
    with assms g have "failMigration e m (''Failed to get source client: '' @ error_v err) w1 = (r, w')"
      by (simp add: reconcileFinalizing_def)
    then show ?thesis using f1 by (rule failMigration_move) simp
  next
    case (Inr sourceClient)
    define w3 where "w3 = reconcileFinalizing_pvs e sourceClient (st_preservedPVs (mig_status m))
      (reconcileFinalizing_pvcs e m sourceClient
        (map (\<lambda>i. GetPVCNameForStatefulSetPod ''data'' (spec_statefulSetName (mig_spec m)) (int i))
           [0 ..< nat (sint (st_totalReplicas (mig_status m)))]) w1)"
    define m2 where "m2 = setCondition e w3
        (m\<lparr>mig_status := (mig_status m)
              \<lparr>st_phase := PhaseCompleted, st_completionTime := Some (Now e w3)\<rparr>\<rparr>)
        ''Complete'' ''True'' ''Completed'' ''Migration completed successfully''"
    have f3: "w_migration w3 = w_migration w" using f1 by (simp add: w3_def)
    obtain r4 w4 where u: "status_update e m2 w3 = (r4, w4)" by (cases "status_update e m2 w3")
    with assms g Inr have "w' = w4"
      by (auto simp: reconcileFinalizing_def Let_def w3_def m2_def split: option.splits)
    moreover have "status_move (mig_status m) (mig_status m2)"
      by (simp add: status_move_def m2_def)
    ultimately have "writes (status_move (mig_status m)) w3 w'"
      using u by (auto intro: status_update_writes)
    with f3 show ?thesis by (rule writes_frame)
  qed
qed

text \<open>A step of the world, seen from the status of the resource.\<close>

lemma status_move_refl [simp]: "status_move st st"
  by (simp add: status_move_def)

lemma writes_step_ok:
  assumes "writes (status_move (mig_status m)) w w'" "w_migration w = Some m"
  shows "step_ok w w'"
  using assms by (auto simp: writes_def step_ok_def)

lemma local_update_step_ok:
  assumes "local_update e m1 w = (r, w')" "w_migration w = Some m"
  shows "step_ok w w'"
  using assms
  by (auto simp: local_update_def step_ok_def split: prod.splits option.splits if_splits
           dest!: api_eq)

lemma handleDeletion_step_ok:
  assumes "handleDeletion e m w = (r, w')" "w_migration w = Some m"
  shows "step_ok w w'"
  using assms
  by (auto simp: handleDeletion_def Let_def step_ok_def split: if_splits prod.splits option.splits
           dest: local_update_step_ok)

lemma local_get_Some:
  assumes "local_get e w = (Inr m, w1)"
  shows "w_migration w1 = Some m \<and> w_migration w = Some m"
  using assms by (auto simp: local_get_def split: prod.splits option.splits dest!: api_eq)

lemma local_get_Inl:
  assumes "local_get e w = (Inl err, w1)"
  shows "w_migration w1 = w_migration w"
  using assms by (auto simp: local_get_def split: prod.splits option.splits dest!: api_eq)

lemma step_ok_same: "w_migration w' = w_migration w \<Longrightarrow> step_ok w w'"
  by (simp add: step_ok_def split: option.splits)

lemma step_ok_frame: "w_migration w1 = w_migration w \<Longrightarrow> step_ok w1 w' \<Longrightarrow> step_ok w w'"
  by (auto simp: step_ok_def split: option.splits)

lemma phases_neq [simp]:
  "PhasePending \<noteq> []" "PhasePreFlightChecks \<noteq> []" "PhaseFreezingSource \<noteq> []"
  "PhaseMigratingPods \<noteq> []" "PhaseFinalizing \<noteq> []"
  "PhasePreFlightChecks \<noteq> PhasePending" "PhaseFreezingSource \<noteq> PhasePending"
  "PhaseMigratingPods \<noteq> PhasePending" "PhaseFinalizing \<noteq> PhasePending"
  "PhaseFreezingSource \<noteq> PhasePreFlightChecks" "PhaseMigratingPods \<noteq> PhasePreFlightChecks"
  "PhaseFinalizing \<noteq> PhasePreFlightChecks" "PhaseMigratingPods \<noteq> PhaseFreezingSource"
  "PhaseFinalizing \<noteq> PhaseFreezingSource" "PhaseFinalizing \<noteq> PhaseMigratingPods"
  by (simp_all add: PhasePending_def PhasePreFlightChecks_def PhaseFreezingSource_def
      PhaseMigratingPods_def PhaseFinalizing_def)

lemma Reconcile_step_ok: "step_ok w (snd (Reconcile e w))"
proof -
  let ?w0 = "w\<lparr>w_calls := []\<rparr>"
  obtain x w1 where g: "local_get e ?w0 = (x, w1)" by (cases "local_get e ?w0")
  show ?thesis
  proof (cases x)
    case (Inl err)
    with g have "w_migration w1 = w_migration ?w0" by (auto dest: local_get_Inl)
    moreover from g Inl have "snd (Reconcile e w) = w1"
      by (simp add: Reconcile_def)
    ultimately show ?thesis by (simp add: step_ok_same)
  next
    case (Inr m)
    with g have s: "w_migration w1 = Some m" "w_migration w = Some m"
      using local_get_Some [of e ?w0 m w1] by simp_all
    have "step_ok w1 (snd (Reconcile e w))"
    proof -
      consider (del) "mig_deletionTimestamp m \<noteq> None"
        | (fin) "mig_deletionTimestamp m = None" "MigrationFinalizer \<notin> set (mig_finalizers m)"
        | (phase) "mig_deletionTimestamp m = None" "MigrationFinalizer \<in> set (mig_finalizers m)"
        by blast
      then show ?thesis
      proof cases
        case del
        with g Inr have "Reconcile e w = handleDeletion e m w1"
          by (simp add: Reconcile_def)
        then show ?thesis
          using s(1) by (cases "handleDeletion e m w1") (auto dest: handleDeletion_step_ok)
      next
        case fin
        let ?u = "local_update e (m\<lparr>mig_finalizers := mig_finalizers m @ [MigrationFinalizer]\<rparr>) w1"
        from fin g Inr have "snd (Reconcile e w) = snd ?u"
          by (cases ?u) (auto simp: Reconcile_def split: option.splits)
        then show ?thesis
          using s(1) by (cases ?u) (auto dest: local_update_step_ok)
      next
        case phase
        let ?p = "st_phase (mig_status m)"
        have "writes (status_move (mig_status m)) w1 (snd (Reconcile e w))"
        proof -
          consider (a) "?p = []" | (b) "?p \<noteq> []" "?p = PhasePending"
            | (c) "?p \<noteq> []" "?p \<noteq> PhasePending" "?p = PhasePreFlightChecks"
            | (d) "?p \<noteq> []" "?p \<noteq> PhasePending" "?p \<noteq> PhasePreFlightChecks" "?p = PhaseFreezingSource"
            | (f) "\<not> early_phase ?p" "?p = PhaseMigratingPods"
            | (h) "\<not> early_phase ?p" "?p \<noteq> PhaseMigratingPods" "?p = PhaseFinalizing"
            | (i) "\<not> early_phase ?p" "?p \<noteq> PhaseMigratingPods" "?p \<noteq> PhaseFinalizing"
            by (auto simp: early_phase_def)
          then show ?thesis
          proof cases
            case a
            let ?m1 = "m\<lparr>mig_status := (mig_status m)\<lparr>st_phase := PhasePending\<rparr>\<rparr>"
            let ?u = "status_update e ?m1 w1"
            from a phase g Inr have "snd (Reconcile e w) = snd ?u"
              by (cases ?u) (auto simp: Reconcile_def split: option.splits)
            moreover have "status_move (mig_status m) (mig_status ?m1)"
              using a by (simp add: status_move_def)
            ultimately show ?thesis
              by (cases ?u) (auto intro: status_update_writes)
          next
            case b
            with phase g Inr have "Reconcile e w = reconcilePending e m w1"
              by (simp add: Reconcile_def)
            then show ?thesis using b
              by (cases "reconcilePending e m w1") (auto intro: reconcilePending_move)
          next
            case c
            with phase g Inr have "Reconcile e w = reconcilePreFlightChecks e m w1"
              by (simp add: Reconcile_def)
            then show ?thesis using c
              by (cases "reconcilePreFlightChecks e m w1") (auto intro: reconcilePreFlightChecks_move)
          next
            case d
            with phase g Inr have "Reconcile e w = reconcileFreezingSource e m w1"
              by (simp add: Reconcile_def)
            then show ?thesis using d
              by (cases "reconcileFreezingSource e m w1") (auto intro: reconcileFreezingSource_move)
          next
            case f
            with phase g Inr have "Reconcile e w = reconcileMigratingPods e m w1"
              by (auto simp: Reconcile_def early_phase_def)
            then show ?thesis using f
              by (cases "reconcileMigratingPods e m w1") (auto intro: reconcileMigratingPods_move)
          next
            case h
            with phase g Inr have "Reconcile e w = reconcileFinalizing e m w1"
              by (auto simp: Reconcile_def early_phase_def)
            then show ?thesis
              by (cases "reconcileFinalizing e m w1") (auto intro: reconcileFinalizing_move)
          next
            case i
            with phase g Inr have "Reconcile e w = (Result False, w1)"
              by (auto simp: Reconcile_def early_phase_def)
            then show ?thesis by simp
          qed
        qed
        then show ?thesis using s(1) by (rule writes_step_ok)
      qed
    qed
    moreover have "w_migration w1 = w_migration w" using s by simp
    ultimately show ?thesis by (rule step_ok_frame [rotated])
  qed
qed

lemma do_step_ok: "step_ok w (do_step s w)"
proof (cases s)
  case (ReconcileStep e)
  then show ?thesis by (simp add: Reconcile_step_ok)
next
  case (ClustersChange src dst)
  then show ?thesis by (simp add: step_ok_same)
next
  case (SpecChange sp)
  then show ?thesis by (auto simp: step_ok_def split: option.splits)
next
  case (DeleteRequest t)
  then show ?thesis by (auto simp: step_ok_def split: option.splits)
qed

lemma step_ok_inv:
  assumes "world_inv w" and "step_ok w w'"
  shows "world_inv w' \<and> ahead w w'"
  using assms status_move_inv
  by (fastforce simp: world_inv_def step_ok_def ahead_def split: option.splits)

lemma ahead_refl: "ahead w w"
  by (simp add: ahead_def split: option.splits)

lemma ahead_trans: "ahead w w1 \<Longrightarrow> ahead w1 w2 \<Longrightarrow> ahead w w2"
  by (auto simp: ahead_def split: option.splits elim: prefix_order.trans)

lemma run_inv: "world_inv w \<Longrightarrow> world_inv (run w steps) \<and> ahead w (run w steps)"
proof (induction steps arbitrary: w)
  case Nil
  then show ?case by (simp add: ahead_refl)
next
  case (Cons s steps)
  have a: "world_inv (do_step s w) \<and> ahead w (do_step s w)"
    using Cons.prems do_step_ok by (rule step_ok_inv)
  then have "world_inv (run (do_step s w) steps) \<and> ahead (do_step s w) (run (do_step s w) steps)"
    using Cons.IH by blast
  with a show ?case by (auto intro: ahead_trans)
qed

lemma initial_world_inv: "world_inv (initial_world ns name sp src dst)"
  by (simp add: world_inv_def initial_world_def created_def status_inv_def
      StatefulSetMigrationStatus_zero_def early_phase_def)

text \<open>
  C7. Across every sequence of steps on one migration resource (reconciles in any
  environment, changes of the clusters, changes of the spec, deletion requests), starting
  from its creation: the current index never decreases, the list of migrated pods only grows
  at its end, entry \<open>k\<close> of the list has index \<open>k\<close> (so the indices are
  strictly increasing and dense), and the current index is the length of the list.
\<close>

theorem progress_is_monotone:
  assumes "w = run (initial_world ns name sp src dst) before"
    and "w_migration w = Some m"
    and "w_migration (run w after) = Some m'"
  shows "sint (st_currentIndex (mig_status m)) \<le> sint (st_currentIndex (mig_status m')) \<and>
         prefix (st_migratedPods (mig_status m)) (st_migratedPods (mig_status m')) \<and>
         map (\<lambda>p. sint (mp_index p)) (st_migratedPods (mig_status m')) =
           map int [0 ..< length (st_migratedPods (mig_status m'))] \<and>
         sint (st_currentIndex (mig_status m')) = int (length (st_migratedPods (mig_status m')))"
proof -
  have i: "world_inv w"
    using assms(1) run_inv [OF initial_world_inv] by simp
  then have "world_inv (run w after) \<and> ahead w (run w after)"
    by (rule run_inv)
  then show ?thesis
    using assms(2,3) by (simp add: world_inv_def ahead_def status_inv_def)
qed

lemma web_before_status:
  "map_option (\<lambda>m. (st_phase (mig_status m), st_currentIndex (mig_status m), st_migratedPods (mig_status m)))
     (w_migration (run web_world web_before)) = Some (''MigratingPods'', 0, [])"
  by code_simp

lemma web_after_status:
  "map_option (\<lambda>m. (st_phase (mig_status m), st_currentIndex (mig_status m), st_migratedPods (mig_status m)))
     (w_migration (run (run web_world web_before) [ReconcileStep calm])) =
   Some (''MigratingPods'', 1,
         [\<lparr>mp_index = 0, mp_podName = ''web-0'', mp_volumeID = ''vol-a'', mp_migratedAt = 0\<rparr>])"
  by code_simp

theorem progress_is_monotone_witness:
  "\<exists>m m'. w_migration (run web_world web_before) = Some m \<and>
      w_migration (run (run web_world web_before) [ReconcileStep calm]) = Some m' \<and>
      st_currentIndex (mig_status m) = 0 \<and> st_migratedPods (mig_status m) = [] \<and>
      st_currentIndex (mig_status m') = 1 \<and>
      st_migratedPods (mig_status m') =
        [\<lparr>mp_index = 0, mp_podName = ''web-0'', mp_volumeID = ''vol-a'', mp_migratedAt = 0\<rparr>] \<and>
      sint (st_currentIndex (mig_status m)) \<le> sint (st_currentIndex (mig_status m')) \<and>
      prefix (st_migratedPods (mig_status m)) (st_migratedPods (mig_status m')) \<and>
      map (\<lambda>p. sint (mp_index p)) (st_migratedPods (mig_status m')) =
        map int [0 ..< length (st_migratedPods (mig_status m'))] \<and>
      sint (st_currentIndex (mig_status m')) = int (length (st_migratedPods (mig_status m')))"
proof -
  obtain m where m: "w_migration (run web_world web_before) = Some m"
      "st_currentIndex (mig_status m) = 0" "st_migratedPods (mig_status m) = []"
    using web_before_status by auto
  obtain m' where m': "w_migration (run (run web_world web_before) [ReconcileStep calm]) = Some m'"
      "st_currentIndex (mig_status m') = 1"
      "st_migratedPods (mig_status m') =
        [\<lparr>mp_index = 0, mp_podName = ''web-0'', mp_volumeID = ''vol-a'', mp_migratedAt = 0\<rparr>]"
    using web_after_status by auto
  have w: "run web_world web_before =
      run (initial_world ''ops'' ''move-web'' web_spec web_source web_dest) web_before"
    by (simp add: web_world_def)
  show ?thesis
    using progress_is_monotone [OF w m(1) m'(1)] m m' by blast
qed

end
